theory Spec2Isabelle
  imports Main "HOL-Library.Word"
begin

unbundle bit_operations_syntax

section \<open>Machine types\<close>

text \<open>
  The driver is a Standalone MM driver for AArch64: \<open>UINTN\<close> is 64 bits wide. The code
  itself relies on it: the builder places the status-pointer word at
  \<open>(UINTN *)ErrorBlockBaseAddress + 1\<close>, the descriptor publishes the same word at
  \<open>ErrorBlockData + 8\<close>, and the decoder shifts a \<open>UINTN\<close> left by 32.
\<close>

type_synonym UINT8 = "8 word"
type_synonym UINT16 = "16 word"
type_synonym UINT32 = "32 word"
type_synonym UINT64 = "64 word"
type_synonym UINTN = "64 word"
type_synonym EFI_STATUS = "64 word"

definition EFI_SUCCESS :: EFI_STATUS where
  "EFI_SUCCESS = 0"

definition EFI_INVALID_PARAMETER :: EFI_STATUS where
  "EFI_INVALID_PARAMETER = 0x8000000000000002"

definition EFI_ERROR :: "EFI_STATUS \<Rightarrow> bool" where
  "EFI_ERROR Status = bit Status 63"

definition BIT :: "nat \<Rightarrow> UINTN" where
  "BIT n = push_bit n 1"

section \<open>Dmc620Mm.h: register fields\<close>

definition DMC620_ERR_STATUS_MV :: UINTN where
  "DMC620_ERR_STATUS_MV = BIT 26"

definition DMC620_ERR_STATUS_AV :: UINTN where
  "DMC620_ERR_STATUS_AV = BIT 31"

definition DMC620_ERR_MISC0_COLUMN_MASK :: UINTN where
  "DMC620_ERR_MISC0_COLUMN_MASK =
     BIT 9 OR BIT 8 OR BIT 7 OR BIT 6 OR BIT 5 OR BIT 4 OR BIT 3 OR BIT 2 OR BIT 1 OR BIT 0"

definition DMC620_ERR_MISC0_ROW_MASK :: UINTN where
  "DMC620_ERR_MISC0_ROW_MASK = 0x0FFFFC00"

definition DMC620_ERR_MISC0_ROW_SHIFT :: nat where
  "DMC620_ERR_MISC0_ROW_SHIFT = 10"

definition DMC620_ERR_MISC0_RANK_MASK :: UINTN where
  "DMC620_ERR_MISC0_RANK_MASK = BIT 30 OR BIT 29 OR BIT 28"

definition DMC620_ERR_MISC0_RANK_SHIFT :: nat where
  "DMC620_ERR_MISC0_RANK_SHIFT = 28"

definition DMC620_ERR_MISC0_VAILD :: UINTN where
  "DMC620_ERR_MISC0_VAILD = BIT 31"

definition DMC620_ERR_MISC1_VAILD :: UINTN where
  "DMC620_ERR_MISC1_VAILD = BIT 31"

definition DMC620_ERR_MISC1_BANK_MASK :: UINTN where
  "DMC620_ERR_MISC1_BANK_MASK = BIT 3 OR BIT 2 OR BIT 1 OR BIT 0"

definition DMC620_ERR_GSR_ECC_CORRECTED_FH :: UINTN where
  "DMC620_ERR_GSR_ECC_CORRECTED_FH = BIT 1"

definition RESV_0 :: UINTN where
  "RESV_0 = 0x1BD"

definition RESV_1 :: UINTN where
  "RESV_1 = 0x2C"

definition RESV_2 :: UINTN where
  "RESV_2 = 0x8"

definition RESV_3 :: UINTN where
  "RESV_3 = 0x58"

subsection \<open>Register addresses\<close>

text \<open>
  \<open>DMC620_REGS_TYPE\<close> and \<open>DMC620_ERR_REGS_TYPE\<close> are packed structures of memory-mapped
  registers. The model never holds such a structure as a value: the driver only takes
  the address of a member and hands it to \<open>MmioRead32\<close> or \<open>MmioWrite32\<close>. Each member
  used is therefore a function from the structure's base address to the member's
  address, the offset being the sizes of the members declared before it.
\<close>

definition Err1Fr :: "UINTN \<Rightarrow> UINTN" where
  \<comment> \<open>3 words, Reserved[RESV_0], Err0Fr .. Err0Status (5 words), Reserved2[RESV_1] bytes\<close>
  "Err1Fr DmcCtrl = DmcCtrl + (4 * 3 + 4 * RESV_0 + 4 * 5 + RESV_1)"

definition Err2Fr :: "UINTN \<Rightarrow> UINTN" where
  \<comment> \<open>Err1Fr .. Err1Misc5 (14 words), Reserved6[RESV_2] bytes\<close>
  "Err2Fr DmcCtrl = Err1Fr DmcCtrl + (4 * 14 + RESV_2)"

definition Errgsr :: "UINTN \<Rightarrow> UINTN" where
  \<comment> \<open>Err2Fr .. Err2Misc5 (14 words), Reserved10[RESV_2] bytes, Reserved11[RESV_3] words\<close>
  "Errgsr DmcCtrl = Err2Fr DmcCtrl + (4 * 14 + RESV_2 + 4 * RESV_3)"

definition Reg_ErrStatus :: "UINTN \<Rightarrow> UINTN" where
  "Reg_ErrStatus ErrRecord = ErrRecord + 4 * 4"

definition Reg_ErrAddr0 :: "UINTN \<Rightarrow> UINTN" where
  "Reg_ErrAddr0 ErrRecord = ErrRecord + 4 * 6"

definition Reg_ErrAddr1 :: "UINTN \<Rightarrow> UINTN" where
  "Reg_ErrAddr1 ErrRecord = ErrRecord + 4 * 7"

definition Reg_ErrMisc0 :: "UINTN \<Rightarrow> UINTN" where
  "Reg_ErrMisc0 ErrRecord = ErrRecord + 4 * 8"

definition Reg_ErrMisc1 :: "UINTN \<Rightarrow> UINTN" where
  "Reg_ErrMisc1 ErrRecord = ErrRecord + 4 * 9"

definition Reg_ErrMisc2 :: "UINTN \<Rightarrow> UINTN" where
  "Reg_ErrMisc2 ErrRecord = ErrRecord + 4 * 10"

definition Reg_ErrMisc3 :: "UINTN \<Rightarrow> UINTN" where
  "Reg_ErrMisc3 ErrRecord = ErrRecord + 4 * 11"

definition Reg_ErrMisc4 :: "UINTN \<Rightarrow> UINTN" where
  "Reg_ErrMisc4 ErrRecord = ErrRecord + 4 * 12"

definition Reg_ErrMisc5 :: "UINTN \<Rightarrow> UINTN" where
  "Reg_ErrMisc5 ErrRecord = ErrRecord + 4 * 13"

section \<open>Platform configuration\<close>

text \<open>
  The values of the fixed PCDs are set by the platform description, which is not part
  of the driver: each \<open>FixedPcdGet\<close> reads a field of this record.
\<close>

record PCD =
  PcdDmc620NumCtrl :: UINT64
  PcdDmc620ErrSourceCount :: UINT64
  PcdDmc620RegisterBase :: UINT64
  PcdDmc620CtrlSize :: UINT64
  PcdDmc620DramOneBitErrorDataBase :: UINT64
  PcdDmc620DramOneBitErrorDataSize :: UINT64
  PcdDmc620DramOneBitErrorSourceId :: UINT16
  PcdDmc620DramErrorSdeiEventBase :: UINT32

section \<open>ACPI and CPER structures\<close>

text \<open>
  The structures the driver fills are those of the ACPI 6.3 and UEFI (CPER) headers it
  includes (\<open>IndustryStandard/Acpi.h\<close>, \<open>Guid/Cper.h\<close>), with the field names and widths
  of those headers. A field name used by two structures carries the structure's name
  as a prefix.
\<close>

record EFI_GUID =
  Data1 :: UINT32
  Data2 :: UINT16
  Data3 :: UINT16
  Data4 :: "UINT8 list"

definition ZERO_GUID :: EFI_GUID where
  "ZERO_GUID = \<lparr>Data1 = 0, Data2 = 0, Data3 = 0, Data4 = replicate 8 0\<rparr>"

definition EFI_ERROR_SECTION_PLATFORM_MEMORY_GUID :: EFI_GUID where
  "EFI_ERROR_SECTION_PLATFORM_MEMORY_GUID =
     \<lparr>Data1 = 0xa5bc1114, Data2 = 0x6f64, Data3 = 0x4ede,
      Data4 = [0xb8, 0x63, 0x3e, 0x83, 0xed, 0x7c, 0x83, 0xb1]\<rparr>"

record EFI_ACPI_6_3_ERROR_BLOCK_STATUS =
  UncorrectableErrorValid :: "1 word"
  CorrectableErrorValid :: "1 word"
  MultipleUncorrectableErrors :: "1 word"
  MultipleCorrectableErrors :: "1 word"
  ErrorDataEntryCount :: "10 word"
  BlockStatus_Reserved :: "18 word"

record EFI_ACPI_6_3_GENERIC_ERROR_STATUS_STRUCTURE =
  BlockStatus :: EFI_ACPI_6_3_ERROR_BLOCK_STATUS
  RawDataOffset :: UINT32
  RawDataLength :: UINT32
  DataLength :: UINT32
  ErrorSeverity :: UINT32

record EFI_ACPI_6_3_GENERIC_ERROR_DATA_ENTRY_STRUCTURE =
  SectionType :: EFI_GUID
  Entry_ErrorSeverity :: UINT32
  Revision :: UINT16
  ValidationBits :: UINT8
  Entry_Flags :: UINT8
  ErrorDataLength :: UINT32
  FruId :: "UINT8 list"
  FruText :: "UINT8 list"
  Timestamp :: "UINT8 list"

record EFI_PLATFORM_MEMORY_ERROR_DATA =
  ValidFields :: UINT64
  ErrorStatus :: UINT64
  PhysicalAddress :: UINT64
  PhysicalAddressMask :: UINT64
  Node :: UINT16
  Card :: UINT16
  ModuleRank :: UINT16
  Bank :: UINT16
  Device :: UINT16
  Row :: UINT16
  Column :: UINT16
  BitPosition :: UINT16
  RequestorId :: UINT64
  ResponderId :: UINT64
  TargetId :: UINT64
  ErrorType :: UINT8
  Extended :: UINT8
  RankNum :: UINT16
  CardHandle :: UINT16
  ModuleHandle :: UINT16

definition EFI_PLATFORM_MEMORY_PHY_ADDRESS_VALID :: UINT64 where
  "EFI_PLATFORM_MEMORY_PHY_ADDRESS_VALID = BIT 1"

definition EFI_PLATFORM_MEMORY_PHY_ADDRESS_MASK_VALID :: UINT64 where
  "EFI_PLATFORM_MEMORY_PHY_ADDRESS_MASK_VALID = BIT 2"

definition EFI_PLATFORM_MEMORY_BANK_VALID :: UINT64 where
  "EFI_PLATFORM_MEMORY_BANK_VALID = BIT 6"

definition EFI_PLATFORM_MEMORY_COLUMN_VALID :: UINT64 where
  "EFI_PLATFORM_MEMORY_COLUMN_VALID = BIT 9"

definition EFI_PLATFORM_MEMORY_ERROR_RANK_NUM_VALID :: UINT64 where
  "EFI_PLATFORM_MEMORY_ERROR_RANK_NUM_VALID = BIT 15"

definition EFI_PLATFORM_MEMORY_ERROR_EXTENDED_ROW_BIT_16_17_VALID :: UINT64 where
  "EFI_PLATFORM_MEMORY_ERROR_EXTENDED_ROW_BIT_16_17_VALID = BIT 18"

definition EFI_ACPI_6_3_ERROR_SEVERITY_FATAL :: UINT32 where
  "EFI_ACPI_6_3_ERROR_SEVERITY_FATAL = 0x01"

definition EFI_ACPI_6_3_ERROR_SEVERITY_CORRECTED :: UINT32 where
  "EFI_ACPI_6_3_ERROR_SEVERITY_CORRECTED = 0x02"

definition EFI_ACPI_6_3_GENERIC_ERROR_DATA_ENTRY_REVISION :: UINT16 where
  "EFI_ACPI_6_3_GENERIC_ERROR_DATA_ENTRY_REVISION = 0x0300"

text \<open>The sizes of the packed structures, as \<open>sizeof\<close> gives them.\<close>

definition sizeof_UINTN :: UINTN where
  "sizeof_UINTN = 8"

definition sizeof_GENERIC_ERROR_STATUS_STRUCTURE :: UINTN where
  \<comment> \<open>five 32-bit words\<close>
  "sizeof_GENERIC_ERROR_STATUS_STRUCTURE = 4 + 4 + 4 + 4 + 4"

definition sizeof_GENERIC_ERROR_DATA_ENTRY_STRUCTURE :: UINTN where
  "sizeof_GENERIC_ERROR_DATA_ENTRY_STRUCTURE = 16 + 4 + 2 + 1 + 1 + 4 + 16 + 20 + 8"

definition sizeof_PLATFORM_MEMORY_ERROR_DATA :: UINTN where
  "sizeof_PLATFORM_MEMORY_ERROR_DATA = 4 * 8 + 8 * 2 + 3 * 8 + 1 + 1 + 3 * 2"

section \<open>Machine state\<close>

text \<open>
  The driver acts on two things: the controller's memory-mapped registers and the
  reserved memory that holds the error status blocks.

  Registers are read and written only through \<open>MmioRead32\<close> and \<open>MmioWrite32\<close>. What a
  write does to the register file is the controller's business and not the driver's
  (the status register clears the bits written as one): it is the parameter \<open>Dev\<close> of
  every function that writes a register. Every access is appended to \<open>MmioLog\<close>, oldest
  first, so that the order and the values of the accesses can be stated.

  Memory is a store of objects keyed by the address they start at. A structure
  assignment stores the structure at its address; \<open>SetMem\<close> stores bytes.
\<close>

datatype mmio_access = MmioRead UINTN UINT32 | MmioWrite UINTN UINT32

type_synonym registers = "UINTN \<Rightarrow> UINT32"

type_synonym device = "registers \<Rightarrow> UINTN \<Rightarrow> UINT32 \<Rightarrow> registers"

datatype object =
    ByteObject UINT8
  | UintnObject UINTN
  | StatusObject EFI_ACPI_6_3_GENERIC_ERROR_STATUS_STRUCTURE
  | DataEntryObject EFI_ACPI_6_3_GENERIC_ERROR_DATA_ENTRY_STRUCTURE
  | MemoryErrorObject EFI_PLATFORM_MEMORY_ERROR_DATA

type_synonym memory = "UINTN \<Rightarrow> object"

record machine =
  Regs :: registers
  MmioLog :: "mmio_access list"
  Mem :: memory

definition MmioRead32 :: "machine \<Rightarrow> UINTN \<Rightarrow> UINT32 \<times> machine" where
  "MmioRead32 s Address =
     (Regs s Address, s\<lparr>MmioLog := MmioLog s @ [MmioRead Address (Regs s Address)]\<rparr>)"

definition MmioWrite32 :: "device \<Rightarrow> machine \<Rightarrow> UINTN \<Rightarrow> UINT32 \<Rightarrow> machine" where
  "MmioWrite32 Dev s Address Value =
     s\<lparr>Regs := Dev (Regs s) Address Value, MmioLog := MmioLog s @ [MmioWrite Address Value]\<rparr>"

definition SetMem :: "memory \<Rightarrow> UINTN \<Rightarrow> UINTN \<Rightarrow> UINT8 \<Rightarrow> memory" where
  \<comment> \<open>the \<open>Length\<close> bytes from \<open>Buffer\<close> on, the address wrapping around as the pointer does\<close>
  "SetMem M Buffer Length Value = (\<lambda>a. if a - Buffer < Length then ByteObject Value else M a)"

definition CopyGuid_SectionType :: "memory \<Rightarrow> UINTN \<Rightarrow> EFI_GUID \<Rightarrow> memory" where
  \<comment> \<open>\<open>CopyGuid\<close> into the \<open>SectionType\<close> member of the data entry at \<open>Entry\<close>\<close>
  "CopyGuid_SectionType M Entry Guid =
     (case M Entry of
        DataEntryObject e \<Rightarrow> M(Entry := DataEntryObject (e\<lparr>SectionType := Guid\<rparr>))
      | _ \<Rightarrow> M)"

section \<open>Dmc620Mm.c: the fault decoder and the error-record builder\<close>

definition ZERO_MEMORY_ERROR_DATA :: EFI_PLATFORM_MEMORY_ERROR_DATA where
  \<comment> \<open>\<open>EFI_PLATFORM_MEMORY_ERROR_DATA MemorySectionInfo = {0}\<close>\<close>
  "ZERO_MEMORY_ERROR_DATA =
     \<lparr>ValidFields = 0, ErrorStatus = 0, PhysicalAddress = 0, PhysicalAddressMask = 0,
      Node = 0, Card = 0, ModuleRank = 0, Bank = 0, Device = 0, Row = 0, Column = 0,
      BitPosition = 0, RequestorId = 0, ResponderId = 0, TargetId = 0, ErrorType = 0,
      Extended = 0, RankNum = 0, CardHandle = 0, ModuleHandle = 0\<rparr>"

text \<open>
  The local \<open>MemorySectionInfo\<close> of \<open>Dmc620HandleDramError\<close>, as lines 41 and 93 to 148
  compute it from the five values read from the error record. These lines touch
  neither the registers nor memory.
\<close>

definition MemorySectionInfo ::
  "UINTN \<Rightarrow> UINTN \<Rightarrow> UINTN \<Rightarrow> UINTN \<Rightarrow> UINTN \<Rightarrow> EFI_PLATFORM_MEMORY_ERROR_DATA" where
  "MemorySectionInfo ErrStatus ErrAddr0 ErrAddr1 ErrMisc0 ErrMisc1 =
     (let Info = ZERO_MEMORY_ERROR_DATA;
          Info =
            (if ErrStatus AND DMC620_ERR_STATUS_AV \<noteq> 0 then
               let Info = Info\<lparr>ValidFields := ValidFields Info OR
                            (EFI_PLATFORM_MEMORY_PHY_ADDRESS_MASK_VALID OR
                             EFI_PLATFORM_MEMORY_PHY_ADDRESS_VALID)\<rparr>;
                   Info = Info\<lparr>PhysicalAddressMask := 0xFFFFFFFFFFFF\<rparr>;
                   Info = Info\<lparr>PhysicalAddress := push_bit 32 ErrAddr1 OR ErrAddr0\<rparr>
               in Info
             else Info);
          Info =
            (if ErrStatus AND DMC620_ERR_STATUS_MV \<noteq> 0 \<and>
                ErrMisc0 AND DMC620_ERR_MISC0_VAILD \<noteq> 0 then
               let Info = Info\<lparr>ValidFields := ValidFields Info OR
                            EFI_PLATFORM_MEMORY_COLUMN_VALID\<rparr>;
                   Info = Info\<lparr>Column := ucast (ErrMisc0 AND DMC620_ERR_MISC0_COLUMN_MASK)\<rparr>;
                   Info = Info\<lparr>ValidFields := ValidFields Info OR
                            EFI_PLATFORM_MEMORY_ERROR_EXTENDED_ROW_BIT_16_17_VALID\<rparr>;
                   Info = Info\<lparr>Row := ucast (drop_bit DMC620_ERR_MISC0_ROW_SHIFT
                            (ErrMisc0 AND DMC620_ERR_MISC0_ROW_MASK))\<rparr>;
                   Info = Info\<lparr>Extended := ucast (drop_bit (DMC620_ERR_MISC0_ROW_SHIFT + 16)
                            (ErrMisc0 AND DMC620_ERR_MISC0_ROW_MASK))\<rparr>;
                   Info = Info\<lparr>ValidFields := ValidFields Info OR
                            EFI_PLATFORM_MEMORY_ERROR_RANK_NUM_VALID\<rparr>;
                   Info = Info\<lparr>RankNum := ucast (drop_bit DMC620_ERR_MISC0_RANK_SHIFT
                            (ErrMisc0 AND DMC620_ERR_MISC0_RANK_MASK))\<rparr>
               in Info
             else Info);
          Info =
            (if ErrStatus AND DMC620_ERR_STATUS_MV \<noteq> 0 \<and>
                ErrMisc1 AND DMC620_ERR_MISC1_VAILD \<noteq> 0 then
               let Info = Info\<lparr>ValidFields := ValidFields Info OR
                            EFI_PLATFORM_MEMORY_BANK_VALID\<rparr>;
                   Info = Info\<lparr>Bank := ucast (ErrMisc1 AND DMC620_ERR_MISC1_BANK_MASK)\<rparr>
               in Info
             else Info)
      in Info)"

text \<open>
  \<open>Dmc620HandleDramError\<close>. The parameter \<open>DmcInstance\<close> is not used by the code. The
  debug prints are left out.
\<close>

definition Dmc620HandleDramError ::
  "device \<Rightarrow> machine \<Rightarrow> UINTN \<Rightarrow> UINTN \<Rightarrow> UINTN \<Rightarrow> UINTN \<Rightarrow> machine" where
  "Dmc620HandleDramError Dev s DmcCtrl DmcInstance ErrRecType ErrorBlockBaseAddress =
     (let (ErrRecord, CorrectedError) =
            (if ErrRecType = DMC620_ERR_GSR_ECC_CORRECTED_FH
             then (Err1Fr DmcCtrl, 1 :: UINT8)
             else (Err2Fr DmcCtrl, 0 :: UINT8));
          \<comment> \<open>Read most recent DRAM error record registers.\<close>
          (r, s) = MmioRead32 s (Reg_ErrStatus ErrRecord); ErrStatus = (ucast r :: UINTN);
          (r, s) = MmioRead32 s (Reg_ErrAddr0 ErrRecord); ErrAddr0 = (ucast r :: UINTN);
          (r, s) = MmioRead32 s (Reg_ErrAddr1 ErrRecord); ErrAddr1 = (ucast r :: UINTN);
          (r, s) = MmioRead32 s (Reg_ErrMisc0 ErrRecord); ErrMisc0 = (ucast r :: UINTN);
          (r, s) = MmioRead32 s (Reg_ErrMisc1 ErrRecord); ErrMisc1 = (ucast r :: UINTN);
          \<comment> \<open>Clear the status register so that new error records are populated.\<close>
          (ResetReg, s) = MmioRead32 s (Reg_ErrStatus ErrRecord);
          s = MmioWrite32 Dev s (Reg_ErrStatus ErrRecord) ResetReg;
          Info = MemorySectionInfo ErrStatus ErrAddr0 ErrAddr1 ErrMisc0 ErrMisc1;
          \<comment> \<open>Misc registers 2..5 are cleared.\<close>
          s = (if ErrStatus AND DMC620_ERR_STATUS_MV \<noteq> 0 then
                 let ResetReg = 0x0;
                     s = MmioWrite32 Dev s (Reg_ErrMisc2 ErrRecord) ResetReg;
                     s = MmioWrite32 Dev s (Reg_ErrMisc3 ErrRecord) ResetReg;
                     s = MmioWrite32 Dev s (Reg_ErrMisc4 ErrRecord) ResetReg;
                     s = MmioWrite32 Dev s (Reg_ErrMisc5 ErrRecord) ResetReg
                 in s
               else s);
          \<comment> \<open>Reset error records Status register.\<close>
          (ResetReg, s) = MmioRead32 s (Reg_ErrStatus ErrRecord);
          s = MmioWrite32 Dev s (Reg_ErrStatus ErrRecord) ResetReg;
          ReadAckRegister = ErrorBlockBaseAddress;
          ErrorStatusRegister = ErrorBlockBaseAddress + 1 * sizeof_UINTN;
          ErrStatusBlock = ErrorStatusRegister + 1 * sizeof_UINTN;
          \<comment> \<open>Initialize Error Status Register with Error Status Block address.\<close>
          s = s\<lparr>Mem := (Mem s)(ErrorStatusRegister := UintnObject ErrStatusBlock)\<rparr>;
          ErrBlockStatusHeaderData = ErrStatusBlock;
          s = s\<lparr>Mem := (Mem s)(ErrBlockStatusHeaderData := StatusObject
                \<lparr>BlockStatus =
                   \<lparr>UncorrectableErrorValid = (if CorrectedError = 0 then 0 else 1),
                    CorrectableErrorValid = (if CorrectedError = 1 then 1 else 0),
                    MultipleUncorrectableErrors = 0x0,
                    MultipleCorrectableErrors = 0x0,
                    ErrorDataEntryCount = 0x1,
                    BlockStatus_Reserved = 0\<rparr>,
                 RawDataOffset = ucast (sizeof_GENERIC_ERROR_STATUS_STRUCTURE +
                                        sizeof_GENERIC_ERROR_DATA_ENTRY_STRUCTURE),
                 RawDataLength = 0,
                 DataLength = ucast (sizeof_GENERIC_ERROR_DATA_ENTRY_STRUCTURE +
                                     sizeof_PLATFORM_MEMORY_ERROR_DATA),
                 ErrorSeverity = (if CorrectedError = 1
                                  then EFI_ACPI_6_3_ERROR_SEVERITY_CORRECTED
                                  else EFI_ACPI_6_3_ERROR_SEVERITY_FATAL)\<rparr>)\<rparr>;
          ErrBlockSectionDesc =
            ErrBlockStatusHeaderData + 1 * sizeof_GENERIC_ERROR_STATUS_STRUCTURE;
          s = s\<lparr>Mem := (Mem s)(ErrBlockSectionDesc := DataEntryObject
                \<lparr>SectionType = ZERO_GUID,
                 Entry_ErrorSeverity = (if CorrectedError = 1
                                        then EFI_ACPI_6_3_ERROR_SEVERITY_CORRECTED
                                        else EFI_ACPI_6_3_ERROR_SEVERITY_FATAL),
                 Revision = EFI_ACPI_6_3_GENERIC_ERROR_DATA_ENTRY_REVISION,
                 ValidationBits = 0,
                 Entry_Flags = 0,
                 ErrorDataLength = ucast sizeof_PLATFORM_MEMORY_ERROR_DATA,
                 FruId = replicate 16 0,
                 FruText = replicate 20 0,
                 Timestamp = replicate 8 0\<rparr>)\<rparr>;
          SectionType = EFI_ERROR_SECTION_PLATFORM_MEMORY_GUID;
          s = s\<lparr>Mem := CopyGuid_SectionType (Mem s) ErrBlockSectionDesc SectionType\<rparr>;
          ErrBlockSectionData =
            ErrBlockSectionDesc + 1 * sizeof_GENERIC_ERROR_DATA_ENTRY_STRUCTURE;
          \<comment> \<open>\<open>CopyMem\<close> of the whole of \<open>MemorySectionInfo\<close>\<close>
          s = s\<lparr>Mem := (Mem s)(ErrBlockSectionData := MemoryErrorObject Info)\<rparr>
      in s)"

text \<open>
  \<open>Dmc620ErrorEventHandler\<close>. \<open>CommBuffer\<close> stands for the \<open>UINTN\<close> the communication
  buffer holds, the index of the controller that raised the event; the result carries
  the value the handler leaves in \<open>*CommBufferSize\<close>.
\<close>

definition Dmc620ErrorEventHandler ::
  "device \<Rightarrow> PCD \<Rightarrow> machine \<Rightarrow> UINTN \<Rightarrow> EFI_STATUS \<times> UINTN \<times> machine" where
  "Dmc620ErrorEventHandler Dev P s CommBuffer =
     (let DmcIdx = CommBuffer;
          DmcCtrl = PcdDmc620RegisterBase P + PcdDmc620CtrlSize P * DmcIdx;
          (r, s) = MmioRead32 s (Errgsr DmcCtrl); ErrGsr = (ucast r :: UINTN);
          s = (if ErrGsr AND DMC620_ERR_GSR_ECC_CORRECTED_FH \<noteq> 0 then
                 Dmc620HandleDramError Dev s DmcCtrl DmcIdx DMC620_ERR_GSR_ECC_CORRECTED_FH
                   (PcdDmc620DramOneBitErrorDataBase P +
                    PcdDmc620DramOneBitErrorDataSize P * DmcIdx)
               else s);
          CommBufferSize = 0
      in (EFI_SUCCESS, CommBufferSize, s))"

section \<open>Dmc620MmErrorSourceInfo.c: the descriptor generator\<close>

text \<open>
  Modelled from the spec: the two initialiser macros
  \<open>EFI_ACPI_6_3_GENERIC_ERROR_STATUS_STRUCTURE_INIT\<close> and
  \<open>EFI_ACPI_6_3_HARDWARE_ERROR_NOTIFICATION_STRUCTURE_INIT\<close> come from
  \<open>HestAcpiHeader.h\<close>, which is not among the sources. The spec (3, 4.3) says what the
  descriptor takes from their arguments: the address structures refer to the status
  pointer and to the acknowledgment word of the block, the notification structure
  carries the notification type and the event id. The two structures keep the members
  an argument fills; the members a macro sets to constants of its own are left out.
  The address is 64 bits wide and the event id (the \<open>Vector\<close> member of ACPI) 32.
\<close>

record GENERIC_ADDRESS_STRUCTURE =
  Address :: UINT64

record HARDWARE_ERROR_NOTIFICATION_STRUCTURE =
  Notification_Type :: UINT8
  PollInterval :: UINT32
  Vector :: UINT32

definition EFI_ACPI_6_3_GENERIC_ERROR_STATUS_STRUCTURE_INIT ::
  "UINTN \<Rightarrow> GENERIC_ADDRESS_STRUCTURE" where
  "EFI_ACPI_6_3_GENERIC_ERROR_STATUS_STRUCTURE_INIT Addr = \<lparr>Address = Addr\<rparr>"

definition EFI_ACPI_6_3_HARDWARE_ERROR_NOTIFICATION_STRUCTURE_INIT ::
  "UINT8 \<Rightarrow> UINT32 \<Rightarrow> UINTN \<Rightarrow> HARDWARE_ERROR_NOTIFICATION_STRUCTURE" where
  "EFI_ACPI_6_3_HARDWARE_ERROR_NOTIFICATION_STRUCTURE_INIT Type Interval EventId =
     \<lparr>Notification_Type = Type, PollInterval = Interval, Vector = ucast EventId\<rparr>"

definition EFI_ACPI_6_3_GENERIC_HARDWARE_ERROR_VERSION_2 :: UINT16 where
  "EFI_ACPI_6_3_GENERIC_HARDWARE_ERROR_VERSION_2 = 0x000A"

definition EFI_ACPI_6_3_HARDWARE_ERROR_NOTIFICATION_SOFTWARE_DELEGATED_EXCEPTION :: UINT8 where
  "EFI_ACPI_6_3_HARDWARE_ERROR_NOTIFICATION_SOFTWARE_DELEGATED_EXCEPTION = 0x0B"

record EFI_ACPI_6_3_GENERIC_HARDWARE_ERROR_SOURCE_VERSION_2_STRUCTURE =
  Type :: UINT16
  SourceId :: UINT16
  RelatedSourceId :: UINT16
  Flags :: UINT8
  Enabled :: UINT8
  NumberOfRecordsToPreAllocate :: UINT32
  MaxSectionsPerRecord :: UINT32
  MaxRawDataLength :: UINT32
  ErrorStatusAddress :: GENERIC_ADDRESS_STRUCTURE
  NotificationStructure :: HARDWARE_ERROR_NOTIFICATION_STRUCTURE
  ErrorStatusBlockLength :: UINT32
  ReadAckRegister :: GENERIC_ADDRESS_STRUCTURE
  ReadAckPreserve :: UINT64
  ReadAckWrite :: UINT64

definition sizeof_GENERIC_HARDWARE_ERROR_SOURCE_VERSION_2_STRUCTURE :: UINTN where
  \<comment> \<open>an address structure takes 12 bytes, the notification structure 28\<close>
  "sizeof_GENERIC_HARDWARE_ERROR_SOURCE_VERSION_2_STRUCTURE =
     2 + 2 + 2 + 1 + 1 + 4 + 4 + 4 + 12 + 28 + 4 + 12 + 8 + 8"

text \<open>
  The buffer the caller passes is an array of descriptors: slot \<open>k\<close> is the descriptor
  at \<open>ErrorDescriptor + k\<close>, and \<open>None\<close> a slot nothing was written to. The caller
  allocates it from pool memory, apart from the reserved memory of the error status
  blocks, so it is kept apart from \<open>memory\<close>.
\<close>

type_synonym descriptor_buffer =
  "nat \<Rightarrow> EFI_ACPI_6_3_GENERIC_HARDWARE_ERROR_SOURCE_VERSION_2_STRUCTURE option"

text \<open>
  \<open>Dmc620SetupDramErrorDescriptor\<close>. \<open>DramErrorDescriptor\<close> is the value of the
  compound literal the function assigns to \<open>*ErrorDesc\<close> (lines 54 to 82), and
  \<open>ErrorDesc\<close> the slot of the buffer the pointer refers to.
\<close>

definition DramErrorDescriptor ::
  "PCD \<Rightarrow> UINTN \<Rightarrow> EFI_ACPI_6_3_GENERIC_HARDWARE_ERROR_SOURCE_VERSION_2_STRUCTURE" where
  "DramErrorDescriptor P DmcIdx =
     (let ErrorBlockData = PcdDmc620DramOneBitErrorDataBase P +
                             (PcdDmc620DramOneBitErrorDataSize P * DmcIdx)
      in \<lparr>Type = EFI_ACPI_6_3_GENERIC_HARDWARE_ERROR_VERSION_2,
          SourceId = ucast (ucast (PcdDmc620DramOneBitErrorSourceId P) + DmcIdx),
          RelatedSourceId = 0xFFFF,
          Flags = 0,
          Enabled = 1,
          NumberOfRecordsToPreAllocate = 1,
          MaxSectionsPerRecord = 1,
          MaxRawDataLength = ucast sizeof_PLATFORM_MEMORY_ERROR_DATA,
          ErrorStatusAddress =
            EFI_ACPI_6_3_GENERIC_ERROR_STATUS_STRUCTURE_INIT (ErrorBlockData + 8),
          NotificationStructure =
            EFI_ACPI_6_3_HARDWARE_ERROR_NOTIFICATION_STRUCTURE_INIT
              EFI_ACPI_6_3_HARDWARE_ERROR_NOTIFICATION_SOFTWARE_DELEGATED_EXCEPTION
              0
              (ucast (PcdDmc620DramErrorSdeiEventBase P) + DmcIdx),
          ErrorStatusBlockLength = ucast
            (sizeof_GENERIC_ERROR_STATUS_STRUCTURE +
             sizeof_GENERIC_ERROR_DATA_ENTRY_STRUCTURE +
             sizeof_PLATFORM_MEMORY_ERROR_DATA),
          ReadAckRegister =
            EFI_ACPI_6_3_GENERIC_ERROR_STATUS_STRUCTURE_INIT ErrorBlockData,
          ReadAckPreserve = 0,
          ReadAckWrite = 0\<rparr>)"

definition Dmc620SetupDramErrorDescriptor ::
  "PCD \<Rightarrow> descriptor_buffer \<times> memory \<Rightarrow> nat \<Rightarrow> UINTN \<Rightarrow> descriptor_buffer \<times> memory" where
  "Dmc620SetupDramErrorDescriptor P st ErrorDesc DmcIdx =
     (let (Buf, M) = st;
          ErrorBlockData = PcdDmc620DramOneBitErrorDataBase P +
                             (PcdDmc620DramOneBitErrorDataSize P * DmcIdx);
          M = SetMem M ErrorBlockData (PcdDmc620DramOneBitErrorDataSize P) 0;
          \<comment> \<open>Build the DRAM error source descriptor.\<close>
          Buf = Buf(ErrorDesc \<mapsto> DramErrorDescriptor P DmcIdx)
      in (Buf, M))"

text \<open>
  The loop of \<open>Dmc620ErrorSourceDescInfoGet\<close> (lines 141 to 145), from the values
  \<open>DmcIdx\<close> and \<open>ErrorDescriptor\<close> have at the loop's head.
\<close>

function Dmc620ErrorSourceDescInfoGet_loop ::
  "PCD \<Rightarrow> UINTN \<Rightarrow> nat \<Rightarrow> descriptor_buffer \<times> memory \<Rightarrow> descriptor_buffer \<times> memory" where
  "Dmc620ErrorSourceDescInfoGet_loop P DmcIdx ErrorDescriptor st =
     (if DmcIdx < PcdDmc620NumCtrl P then
        Dmc620ErrorSourceDescInfoGet_loop P (DmcIdx + 1) (ErrorDescriptor + 1)
          (Dmc620SetupDramErrorDescriptor P st ErrorDescriptor DmcIdx)
      else st)"
  by pat_completeness auto
termination
proof (relation "measure (\<lambda>(P, DmcIdx, _). unat (PcdDmc620NumCtrl P) - unat DmcIdx)")
  show "wf (measure (\<lambda>(P, DmcIdx, _). unat (PcdDmc620NumCtrl P) - unat DmcIdx))"
    by simp
next
  fix P :: PCD and DmcIdx :: UINTN and ErrorDescriptor :: nat
    and st :: "descriptor_buffer \<times> memory"
  assume less: "DmcIdx < PcdDmc620NumCtrl P"
  then have below: "unat DmcIdx < unat (PcdDmc620NumCtrl P)"
    by (simp add: word_less_nat_alt)
  have "unat (PcdDmc620NumCtrl P) < 2 ^ 64"
    using unsigned_less [of "PcdDmc620NumCtrl P", where ?'a = nat] by simp
  with below have "unat DmcIdx + unat (1 :: UINTN) < 2 ^ LENGTH(64)"
    by simp
  then have "unat (DmcIdx + 1) = unat DmcIdx + unat (1 :: UINTN)"
    by (simp only: unat_add_lem)
  with below show
    "((P, DmcIdx + 1, ErrorDescriptor + 1,
       Dmc620SetupDramErrorDescriptor P st ErrorDescriptor DmcIdx),
      (P, DmcIdx, ErrorDescriptor, st))
     \<in> measure (\<lambda>(P, DmcIdx, _). unat (PcdDmc620NumCtrl P) - unat DmcIdx)"
    by simp
qed

declare Dmc620ErrorSourceDescInfoGet_loop.simps [simp del]

text \<open>
  \<open>Dmc620ErrorSourceDescInfoGet\<close>. \<open>Buffer\<close> is \<open>None\<close> for a null pointer. The result
  holds the status returned, the two output parameters, which are written on every
  call, the buffer and the memory.
\<close>

record DescInfo =
  Status :: EFI_STATUS
  ErrorSourcesLength :: UINTN
  ErrorSourcesCount :: UINTN
  Descriptors :: "descriptor_buffer option"
  Memory :: memory

definition Dmc620ErrorSourceDescInfoGet ::
  "PCD \<Rightarrow> memory \<Rightarrow> descriptor_buffer option \<Rightarrow> DescInfo" where
  "Dmc620ErrorSourceDescInfoGet P M Buffer =
     (let Length = PcdDmc620NumCtrl P * PcdDmc620ErrSourceCount P *
                     sizeof_GENERIC_HARDWARE_ERROR_SOURCE_VERSION_2_STRUCTURE;
          Count = PcdDmc620NumCtrl P * PcdDmc620ErrSourceCount P
      in case Buffer of
           None \<Rightarrow>
             \<lparr>Status = EFI_INVALID_PARAMETER, ErrorSourcesLength = Length,
              ErrorSourcesCount = Count, Descriptors = None, Memory = M\<rparr>
         | Some Buf \<Rightarrow>
             let ErrorDescriptor = 0;
                 (Buf, M) = Dmc620ErrorSourceDescInfoGet_loop P 0 ErrorDescriptor (Buf, M)
             in \<lparr>Status = EFI_SUCCESS, ErrorSourcesLength = Length,
                 ErrorSourcesCount = Count, Descriptors = Some Buf, Memory = M\<rparr>)"

section \<open>What the properties are stated with\<close>

text \<open>
  The layout of an error status block, as the spec (3, 6) lays it out from the block's
  base address: an acknowledgment word, a status-pointer word, the generic status
  header, one data-entry header and one memory-error payload, each directly after the
  one before.
\<close>

definition Block_ReadAck :: "UINTN \<Rightarrow> UINTN" where
  "Block_ReadAck Base = Base"

definition Block_StatusPointer :: "UINTN \<Rightarrow> UINTN" where
  "Block_StatusPointer Base = Block_ReadAck Base + sizeof_UINTN"

definition Block_StatusHeader :: "UINTN \<Rightarrow> UINTN" where
  "Block_StatusHeader Base = Block_StatusPointer Base + sizeof_UINTN"

definition Block_DataEntry :: "UINTN \<Rightarrow> UINTN" where
  "Block_DataEntry Base = Block_StatusHeader Base + sizeof_GENERIC_ERROR_STATUS_STRUCTURE"

definition Block_MemoryPayload :: "UINTN \<Rightarrow> UINTN" where
  "Block_MemoryPayload Base = Block_DataEntry Base + sizeof_GENERIC_ERROR_DATA_ENTRY_STRUCTURE"

text \<open>
  The fault-record slot \<open>Dmc620HandleDramError\<close> works on: record 1 for a corrected
  fault, record 2 for any other record type.
\<close>

definition FaultRecord :: "UINTN \<Rightarrow> UINTN \<Rightarrow> UINTN" where
  "FaultRecord DmcCtrl ErrRecType =
     (if ErrRecType = DMC620_ERR_GSR_ECC_CORRECTED_FH then Err1Fr DmcCtrl else Err2Fr DmcCtrl)"

text \<open>The error status block the event handler passes on for a controller.\<close>

definition OneBitErrorBlock :: "PCD \<Rightarrow> UINTN \<Rightarrow> UINTN" where
  "OneBitErrorBlock P DmcIdx =
     PcdDmc620DramOneBitErrorDataBase P + PcdDmc620DramOneBitErrorDataSize P * DmcIdx"

text \<open>
  The row field of misc 0, which the row and the extended row bits share:
  \<open>(ErrMisc0 & rowMask) >> rowShift\<close>.
\<close>

definition RowField :: "UINTN \<Rightarrow> UINTN" where
  "RowField ErrMisc0 =
     drop_bit DMC620_ERR_MISC0_ROW_SHIFT (ErrMisc0 AND DMC620_ERR_MISC0_ROW_MASK)"

subsection \<open>A platform to run the driver on\<close>

text \<open>
  A platform of two controllers, and a register file in which controller 1 holds a
  fault in record 1: address halves 1 and 2; in misc 0 the valid bit, rank 1, the row
  field \<open>0x30001\<close> and column 5; in misc 1 the valid bit and bank 3. The global status
  and the record's status are left open. A write to a register clears the bits
  written as one.
\<close>

definition sample_PCD :: "UINT64 \<Rightarrow> PCD" where
  "sample_PCD SourceCount =
     \<lparr>PcdDmc620NumCtrl = 2, PcdDmc620ErrSourceCount = SourceCount,
      PcdDmc620RegisterBase = 0x4E000000, PcdDmc620CtrlSize = 0x100000,
      PcdDmc620DramOneBitErrorDataBase = 0xFF610000,
      PcdDmc620DramOneBitErrorDataSize = 0x100,
      PcdDmc620DramOneBitErrorSourceId = 0,
      PcdDmc620DramErrorSdeiEventBase = 804\<rparr>"

definition sample_machine :: "UINT32 \<Rightarrow> UINT32 \<Rightarrow> machine" where
  "sample_machine Gsr ErrStatus =
     \<lparr>Regs = (\<lambda>a. 0)
        (0x4E100920 := Gsr, 0x4E100750 := ErrStatus, 0x4E100758 := 1, 0x4E10075C := 2,
         0x4E100760 := 0x9C000405, 0x4E100764 := 0x80000003),
      MmioLog = [],
      Mem = (\<lambda>a. ByteObject 0xAA)\<rparr>"

definition empty_buffer :: descriptor_buffer where
  "empty_buffer = (\<lambda>k. None)"

definition clear_on_write :: device where
  "clear_on_write R a v = R(a := R a AND NOT v)"

section \<open>What the builder leaves in memory\<close>

lemmas reg_defs = Err1Fr_def Err2Fr_def Errgsr_def Reg_ErrStatus_def Reg_ErrAddr0_def
  Reg_ErrAddr1_def Reg_ErrMisc0_def Reg_ErrMisc1_def Reg_ErrMisc2_def Reg_ErrMisc3_def
  Reg_ErrMisc4_def Reg_ErrMisc5_def RESV_0_def RESV_1_def RESV_2_def RESV_3_def

lemmas flag_defs = BIT_def DMC620_ERR_STATUS_MV_def DMC620_ERR_STATUS_AV_def
  DMC620_ERR_MISC0_COLUMN_MASK_def DMC620_ERR_MISC0_ROW_MASK_def DMC620_ERR_MISC0_ROW_SHIFT_def
  DMC620_ERR_MISC0_RANK_MASK_def DMC620_ERR_MISC0_RANK_SHIFT_def DMC620_ERR_MISC0_VAILD_def
  DMC620_ERR_MISC1_VAILD_def DMC620_ERR_MISC1_BANK_MASK_def DMC620_ERR_GSR_ECC_CORRECTED_FH_def
  EFI_PLATFORM_MEMORY_PHY_ADDRESS_VALID_def EFI_PLATFORM_MEMORY_PHY_ADDRESS_MASK_VALID_def
  EFI_PLATFORM_MEMORY_BANK_VALID_def EFI_PLATFORM_MEMORY_COLUMN_VALID_def
  EFI_PLATFORM_MEMORY_ERROR_RANK_NUM_VALID_def
  EFI_PLATFORM_MEMORY_ERROR_EXTENDED_ROW_BIT_16_17_VALID_def

lemmas sizeof_defs = sizeof_UINTN_def sizeof_GENERIC_ERROR_STATUS_STRUCTURE_def
  sizeof_GENERIC_ERROR_DATA_ENTRY_STRUCTURE_def sizeof_PLATFORM_MEMORY_ERROR_DATA_def

lemmas block_defs = Block_ReadAck_def Block_StatusPointer_def Block_StatusHeader_def
  Block_DataEntry_def Block_MemoryPayload_def

lemma HandleDramError_Mem:
  "Mem (Dmc620HandleDramError Dev s DmcCtrl DmcInstance ErrRecType Base) =
     (Mem s)
       (Block_StatusPointer Base := UintnObject (Block_StatusHeader Base),
        Block_StatusHeader Base := StatusObject
          \<lparr>BlockStatus =
             \<lparr>UncorrectableErrorValid =
                (if ErrRecType = DMC620_ERR_GSR_ECC_CORRECTED_FH then 1 else 0),
              CorrectableErrorValid =
                (if ErrRecType = DMC620_ERR_GSR_ECC_CORRECTED_FH then 1 else 0),
              MultipleUncorrectableErrors = 0,
              MultipleCorrectableErrors = 0,
              ErrorDataEntryCount = 1,
              BlockStatus_Reserved = 0\<rparr>,
           RawDataOffset = ucast (sizeof_GENERIC_ERROR_STATUS_STRUCTURE +
                                  sizeof_GENERIC_ERROR_DATA_ENTRY_STRUCTURE),
           RawDataLength = 0,
           DataLength = ucast (sizeof_GENERIC_ERROR_DATA_ENTRY_STRUCTURE +
                               sizeof_PLATFORM_MEMORY_ERROR_DATA),
           ErrorSeverity =
             (if ErrRecType = DMC620_ERR_GSR_ECC_CORRECTED_FH
              then EFI_ACPI_6_3_ERROR_SEVERITY_CORRECTED
              else EFI_ACPI_6_3_ERROR_SEVERITY_FATAL)\<rparr>,
        Block_DataEntry Base := DataEntryObject
          \<lparr>SectionType = EFI_ERROR_SECTION_PLATFORM_MEMORY_GUID,
           Entry_ErrorSeverity =
             (if ErrRecType = DMC620_ERR_GSR_ECC_CORRECTED_FH
              then EFI_ACPI_6_3_ERROR_SEVERITY_CORRECTED
              else EFI_ACPI_6_3_ERROR_SEVERITY_FATAL),
           Revision = EFI_ACPI_6_3_GENERIC_ERROR_DATA_ENTRY_REVISION,
           ValidationBits = 0,
           Entry_Flags = 0,
           ErrorDataLength = ucast sizeof_PLATFORM_MEMORY_ERROR_DATA,
           FruId = replicate 16 0,
           FruText = replicate 20 0,
           Timestamp = replicate 8 0\<rparr>,
        Block_MemoryPayload Base := MemoryErrorObject
          (MemorySectionInfo
             (ucast (Regs s (Reg_ErrStatus (FaultRecord DmcCtrl ErrRecType))))
             (ucast (Regs s (Reg_ErrAddr0 (FaultRecord DmcCtrl ErrRecType))))
             (ucast (Regs s (Reg_ErrAddr1 (FaultRecord DmcCtrl ErrRecType))))
             (ucast (Regs s (Reg_ErrMisc0 (FaultRecord DmcCtrl ErrRecType))))
             (ucast (Regs s (Reg_ErrMisc1 (FaultRecord DmcCtrl ErrRecType))))))"
proof (cases "ErrRecType = DMC620_ERR_GSR_ECC_CORRECTED_FH")
  case True
  then show ?thesis
    by (simp add: Dmc620HandleDramError_def MmioRead32_def MmioWrite32_def Let_def
        CopyGuid_SectionType_def FaultRecord_def block_defs sizeof_defs)
next
  case False
  then show ?thesis
    by (simp add: Dmc620HandleDramError_def MmioRead32_def MmioWrite32_def Let_def
        CopyGuid_SectionType_def FaultRecord_def block_defs sizeof_defs)
qed

lemma block_distinct:
  "Block_StatusPointer Base \<noteq> Block_StatusHeader Base"
  "Block_StatusPointer Base \<noteq> Block_DataEntry Base"
  "Block_StatusPointer Base \<noteq> Block_MemoryPayload Base"
  "Block_StatusHeader Base \<noteq> Block_DataEntry Base"
  "Block_StatusHeader Base \<noteq> Block_MemoryPayload Base"
  "Block_DataEntry Base \<noteq> Block_MemoryPayload Base"
  by (simp_all add: block_defs sizeof_defs)

lemma HandleDramError_Mem_payload:
  "Mem (Dmc620HandleDramError Dev s DmcCtrl DmcInstance ErrRecType Base)
     (Block_MemoryPayload Base) =
   MemoryErrorObject
     (MemorySectionInfo
        (ucast (Regs s (Reg_ErrStatus (FaultRecord DmcCtrl ErrRecType))))
        (ucast (Regs s (Reg_ErrAddr0 (FaultRecord DmcCtrl ErrRecType))))
        (ucast (Regs s (Reg_ErrAddr1 (FaultRecord DmcCtrl ErrRecType))))
        (ucast (Regs s (Reg_ErrMisc0 (FaultRecord DmcCtrl ErrRecType))))
        (ucast (Regs s (Reg_ErrMisc1 (FaultRecord DmcCtrl ErrRecType)))))"
  by (simp only: HandleDramError_Mem fun_upd_same)

lemma HandleDramError_Mem_header:
  "Mem (Dmc620HandleDramError Dev s DmcCtrl DmcInstance ErrRecType Base)
     (Block_StatusHeader Base) =
   StatusObject
     \<lparr>BlockStatus =
        \<lparr>UncorrectableErrorValid =
           (if ErrRecType = DMC620_ERR_GSR_ECC_CORRECTED_FH then 1 else 0),
         CorrectableErrorValid =
           (if ErrRecType = DMC620_ERR_GSR_ECC_CORRECTED_FH then 1 else 0),
         MultipleUncorrectableErrors = 0,
         MultipleCorrectableErrors = 0,
         ErrorDataEntryCount = 1,
         BlockStatus_Reserved = 0\<rparr>,
      RawDataOffset = ucast (sizeof_GENERIC_ERROR_STATUS_STRUCTURE +
                             sizeof_GENERIC_ERROR_DATA_ENTRY_STRUCTURE),
      RawDataLength = 0,
      DataLength = ucast (sizeof_GENERIC_ERROR_DATA_ENTRY_STRUCTURE +
                          sizeof_PLATFORM_MEMORY_ERROR_DATA),
      ErrorSeverity =
        (if ErrRecType = DMC620_ERR_GSR_ECC_CORRECTED_FH
         then EFI_ACPI_6_3_ERROR_SEVERITY_CORRECTED
         else EFI_ACPI_6_3_ERROR_SEVERITY_FATAL)\<rparr>"
  by (simp only: HandleDramError_Mem fun_upd_apply block_distinct if_False refl if_True)

lemma HandleDramError_Mem_pointer:
  "Mem (Dmc620HandleDramError Dev s DmcCtrl DmcInstance ErrRecType Base)
     (Block_StatusPointer Base) = UintnObject (Block_StatusHeader Base)"
  by (simp only: HandleDramError_Mem fun_upd_apply block_distinct if_False refl if_True)

section \<open>What the decoder puts into the memory payload\<close>

lemma MemorySectionInfo_PhysicalAddress:
  "PhysicalAddress (MemorySectionInfo ErrStatus ErrAddr0 ErrAddr1 ErrMisc0 ErrMisc1) =
     (if ErrStatus AND DMC620_ERR_STATUS_AV \<noteq> 0 then push_bit 32 ErrAddr1 OR ErrAddr0 else 0)"
  by (simp add: MemorySectionInfo_def ZERO_MEMORY_ERROR_DATA_def Let_def)

lemma MemorySectionInfo_PhysicalAddressMask:
  "PhysicalAddressMask (MemorySectionInfo ErrStatus ErrAddr0 ErrAddr1 ErrMisc0 ErrMisc1) =
     (if ErrStatus AND DMC620_ERR_STATUS_AV \<noteq> 0 then 0xFFFFFFFFFFFF else 0)"
  by (simp add: MemorySectionInfo_def ZERO_MEMORY_ERROR_DATA_def Let_def)

lemma MemorySectionInfo_Row:
  "Row (MemorySectionInfo ErrStatus ErrAddr0 ErrAddr1 ErrMisc0 ErrMisc1) =
     (if ErrStatus AND DMC620_ERR_STATUS_MV \<noteq> 0 \<and> ErrMisc0 AND DMC620_ERR_MISC0_VAILD \<noteq> 0
      then ucast (drop_bit DMC620_ERR_MISC0_ROW_SHIFT (ErrMisc0 AND DMC620_ERR_MISC0_ROW_MASK))
      else 0)"
  by (simp add: MemorySectionInfo_def ZERO_MEMORY_ERROR_DATA_def Let_def)

lemma MemorySectionInfo_Extended:
  "Extended (MemorySectionInfo ErrStatus ErrAddr0 ErrAddr1 ErrMisc0 ErrMisc1) =
     (if ErrStatus AND DMC620_ERR_STATUS_MV \<noteq> 0 \<and> ErrMisc0 AND DMC620_ERR_MISC0_VAILD \<noteq> 0
      then ucast (drop_bit (DMC620_ERR_MISC0_ROW_SHIFT + 16)
             (ErrMisc0 AND DMC620_ERR_MISC0_ROW_MASK))
      else 0)"
  by (simp add: MemorySectionInfo_def ZERO_MEMORY_ERROR_DATA_def Let_def)

lemma MemorySectionInfo_ValidFields:
  "ValidFields (MemorySectionInfo ErrStatus ErrAddr0 ErrAddr1 ErrMisc0 ErrMisc1) =
     (if ErrStatus AND DMC620_ERR_STATUS_AV \<noteq> 0
      then EFI_PLATFORM_MEMORY_PHY_ADDRESS_MASK_VALID OR EFI_PLATFORM_MEMORY_PHY_ADDRESS_VALID
      else 0) OR
     (if ErrStatus AND DMC620_ERR_STATUS_MV \<noteq> 0 \<and> ErrMisc0 AND DMC620_ERR_MISC0_VAILD \<noteq> 0
      then EFI_PLATFORM_MEMORY_COLUMN_VALID OR
           EFI_PLATFORM_MEMORY_ERROR_EXTENDED_ROW_BIT_16_17_VALID OR
           EFI_PLATFORM_MEMORY_ERROR_RANK_NUM_VALID
      else 0) OR
     (if ErrStatus AND DMC620_ERR_STATUS_MV \<noteq> 0 \<and> ErrMisc1 AND DMC620_ERR_MISC1_VAILD \<noteq> 0
      then EFI_PLATFORM_MEMORY_BANK_VALID
      else 0)"
  by (simp add: MemorySectionInfo_def ZERO_MEMORY_ERROR_DATA_def Let_def ac_simps)

lemma unat_address_halves:
  "unat (push_bit 32 (ucast (hi :: UINT32)) OR ucast (lo :: UINT32) :: UINT64) =
     unat hi * 2 ^ 32 + unat lo"
proof -
  have lo: "unat lo < 2 ^ 32"
    using unsigned_less [of lo, where ?'a = nat] by simp
  have hi: "unat hi < 2 ^ 32"
    using unsigned_less [of hi, where ?'a = nat] by simp
  have "(push_bit 32 (ucast hi) OR ucast lo :: UINT64) = word_cat hi lo"
    by (simp add: word_cat_eq_push_bit_or)
  also have "\<dots> = push_bit 32 (ucast hi) + ucast lo"
    by (simp add: word_cat_eq)
  finally have eq:
    "(push_bit 32 (ucast hi) OR ucast lo :: UINT64) = push_bit 32 (ucast hi) + ucast lo" .
  have a: "unat (ucast lo :: UINT64) = unat lo"
    using lo by (simp add: unsigned_ucast_eq take_bit_nat_eq_self)
  have "unat hi * 2 ^ 32 < 2 ^ 32 * (2 ^ 32 :: nat)"
    using hi by simp
  then have hi64: "unat hi * 2 ^ 32 < (2 ^ 64 :: nat)"
    by simp
  have c: "unat (ucast hi :: UINT64) = unat hi"
    using hi by (simp add: unsigned_ucast_eq take_bit_nat_eq_self)
  have "unat (ucast hi :: UINT64) * unat (4294967296 :: UINT64) < 2 ^ LENGTH(64)"
    using hi64 by (simp add: c)
  then have "unat ((ucast hi :: UINT64) * 4294967296) =
      unat (ucast hi :: UINT64) * unat (4294967296 :: UINT64)"
    by (simp only: unat_mult_lem)
  then have b: "unat (push_bit 32 (ucast hi :: UINT64)) = unat hi * 2 ^ 32"
    by (simp add: push_bit_eq_mult c)
  have "unat hi * 2 ^ 32 + unat lo < 2 ^ 32 * (2 ^ 32 :: nat)"
    using hi lo by simp
  then have "unat (push_bit 32 (ucast hi :: UINT64)) + unat (ucast lo :: UINT64) < 2 ^ LENGTH(64)"
    by (simp add: a b)
  then have "unat (push_bit 32 (ucast hi) + ucast lo :: UINT64) =
      unat (push_bit 32 (ucast hi :: UINT64)) + unat (ucast lo :: UINT64)"
    by (simp only: unat_add_lem)
  then show ?thesis
    by (simp add: eq a b)
qed

section \<open>The error-record builder\<close>

text \<open>
  C1. The claim: every record the builder writes has exactly one of the
  uncorrectable-valid and correctable-valid bits of the status header set, the
  correctable one for a corrected fault and the uncorrectable one otherwise.

  The code does not do this. For a corrected fault (the record type the event handler
  passes) it sets both bits, and for any other record type it sets neither: the
  initialiser of \<open>UncorrectableErrorValid\<close> is \<open>(CorrectedError == 0) ? 0 : 1\<close>. The
  severity field next to it is right in both cases.
\<close>

theorem corrected_record_sets_both_valid_bits:
  "(\<exists>h. Mem (Dmc620HandleDramError Dev s DmcCtrl DmcInstance DMC620_ERR_GSR_ECC_CORRECTED_FH Base)
           (Block_StatusHeader Base) = StatusObject h \<and>
        UncorrectableErrorValid (BlockStatus h) = 1 \<and>
        CorrectableErrorValid (BlockStatus h) = 1 \<and>
        ErrorSeverity h = EFI_ACPI_6_3_ERROR_SEVERITY_CORRECTED) \<and>
   (\<exists>h. Mem (Dmc620HandleDramError Dev s DmcCtrl DmcInstance 0 Base)
           (Block_StatusHeader Base) = StatusObject h \<and>
        UncorrectableErrorValid (BlockStatus h) = 0 \<and>
        CorrectableErrorValid (BlockStatus h) = 0 \<and>
        ErrorSeverity h = EFI_ACPI_6_3_ERROR_SEVERITY_FATAL)"
  by (simp add: HandleDramError_Mem_header)
     (simp add: DMC620_ERR_GSR_ECC_CORRECTED_FH_def BIT_def)

text \<open>
  C6. After every run of the builder the status-pointer word, the second word of the
  block, holds the address of the generic status header, which is the address directly
  after that word, and the header's \<open>DataLength\<close> is the size of a data-entry header
  plus the size of a memory-error payload.
\<close>

theorem status_pointer_and_data_length:
  "Mem (Dmc620HandleDramError Dev s DmcCtrl DmcInstance ErrRecType Base)
     (Block_StatusPointer Base) = UintnObject (Block_StatusHeader Base) \<and>
   Block_StatusHeader Base = Block_StatusPointer Base + sizeof_UINTN \<and>
   (\<exists>h. Mem (Dmc620HandleDramError Dev s DmcCtrl DmcInstance ErrRecType Base)
           (Block_StatusHeader Base) = StatusObject h \<and>
        DataLength h = ucast (sizeof_GENERIC_ERROR_DATA_ENTRY_STRUCTURE +
                              sizeof_PLATFORM_MEMORY_ERROR_DATA) \<and>
        unat (DataLength h) = unat sizeof_GENERIC_ERROR_DATA_ENTRY_STRUCTURE +
                              unat sizeof_PLATFORM_MEMORY_ERROR_DATA)"
  by (simp add: HandleDramError_Mem_pointer HandleDramError_Mem_header)
     (simp add: Block_StatusHeader_def sizeof_defs)

section \<open>The fault decoder\<close>

text \<open>
  C5. When the address-valid bit of the status register read is set, the physical
  address in the memory payload is \<open>(ErrAddr1 << 32) | ErrAddr0\<close>, which as a number is
  \<open>ErrAddr1 * 2^32 + ErrAddr0\<close>, and the physical address mask is 48 one-bits. On the
  sample platform the halves 1 and 2 give \<open>(2 << 32) | 1\<close>.
\<close>

theorem physical_address_from_address_halves:
  assumes "(ucast (Regs s (Reg_ErrStatus (FaultRecord DmcCtrl ErrRecType))) :: UINTN) AND
             DMC620_ERR_STATUS_AV \<noteq> 0"
  shows "\<exists>p. Mem (Dmc620HandleDramError Dev s DmcCtrl DmcInstance ErrRecType Base)
               (Block_MemoryPayload Base) = MemoryErrorObject p \<and>
             PhysicalAddress p =
               push_bit 32 (ucast (Regs s (Reg_ErrAddr1 (FaultRecord DmcCtrl ErrRecType)))) OR
               ucast (Regs s (Reg_ErrAddr0 (FaultRecord DmcCtrl ErrRecType))) \<and>
             unat (PhysicalAddress p) =
               unat (Regs s (Reg_ErrAddr1 (FaultRecord DmcCtrl ErrRecType))) * 2 ^ 32 +
               unat (Regs s (Reg_ErrAddr0 (FaultRecord DmcCtrl ErrRecType))) \<and>
             PhysicalAddressMask p = 0xFFFFFFFFFFFF \<and>
             PhysicalAddressMask p = mask 48"
  using assms
  by (simp add: HandleDramError_Mem_payload MemorySectionInfo_PhysicalAddress
      MemorySectionInfo_PhysicalAddressMask unat_address_halves mask_eq_exp_minus_1)

theorem physical_address_from_address_halves_witness:
  "(ucast (Regs (sample_machine 2 0x84000000)
      (Reg_ErrStatus (FaultRecord 0x4E100000 DMC620_ERR_GSR_ECC_CORRECTED_FH))) :: UINTN) AND
     DMC620_ERR_STATUS_AV \<noteq> 0 \<and>
   (\<exists>p. Mem (Dmc620HandleDramError clear_on_write (sample_machine 2 0x84000000) 0x4E100000 1
               DMC620_ERR_GSR_ECC_CORRECTED_FH 0xFF610100)
            (Block_MemoryPayload 0xFF610100) = MemoryErrorObject p \<and>
        PhysicalAddress p = push_bit 32 0x2 OR 0x1 \<and>
        unat (PhysicalAddress p) = 0x200000001 \<and>
        PhysicalAddressMask p = 0xFFFFFFFFFFFF)"
proof -
  have av: "(ucast (Regs (sample_machine 2 0x84000000)
      (Reg_ErrStatus (FaultRecord 0x4E100000 DMC620_ERR_GSR_ECC_CORRECTED_FH))) :: UINTN) AND
     DMC620_ERR_STATUS_AV \<noteq> 0"
    by (simp add: sample_machine_def FaultRecord_def reg_defs flag_defs)
  show ?thesis
    using av physical_address_from_address_halves [OF av, of clear_on_write 1 "0xFF610100"]
    by (simp add: sample_machine_def FaultRecord_def reg_defs) blast
qed

text \<open>
  C8. When the address-valid bit of the status register read is clear, neither the
  physical-address nor the address-mask validity bit of the memory payload is set, and
  both fields are zero. The record is written all the same: the payload and the status
  header with its one data entry are in place.
\<close>

theorem address_not_valid_leaves_fields_clear:
  assumes "(ucast (Regs s (Reg_ErrStatus (FaultRecord DmcCtrl ErrRecType))) :: UINTN) AND
             DMC620_ERR_STATUS_AV = 0"
  shows "\<exists>p. Mem (Dmc620HandleDramError Dev s DmcCtrl DmcInstance ErrRecType Base)
               (Block_MemoryPayload Base) = MemoryErrorObject p \<and>
             ValidFields p AND EFI_PLATFORM_MEMORY_PHY_ADDRESS_VALID = 0 \<and>
             ValidFields p AND EFI_PLATFORM_MEMORY_PHY_ADDRESS_MASK_VALID = 0 \<and>
             PhysicalAddress p = 0 \<and>
             PhysicalAddressMask p = 0 \<and>
             (\<exists>h. Mem (Dmc620HandleDramError Dev s DmcCtrl DmcInstance ErrRecType Base)
                     (Block_StatusHeader Base) = StatusObject h \<and>
                  ErrorDataEntryCount (BlockStatus h) = 1)"
proof -
  let ?p = "MemorySectionInfo
        (ucast (Regs s (Reg_ErrStatus (FaultRecord DmcCtrl ErrRecType))))
        (ucast (Regs s (Reg_ErrAddr0 (FaultRecord DmcCtrl ErrRecType))))
        (ucast (Regs s (Reg_ErrAddr1 (FaultRecord DmcCtrl ErrRecType))))
        (ucast (Regs s (Reg_ErrMisc0 (FaultRecord DmcCtrl ErrRecType))))
        (ucast (Regs s (Reg_ErrMisc1 (FaultRecord DmcCtrl ErrRecType))))"
  have v1: "ValidFields ?p AND EFI_PLATFORM_MEMORY_PHY_ADDRESS_VALID = 0"
    using assms
    by (simp add: MemorySectionInfo_ValidFields)
       (simp add: BIT_def EFI_PLATFORM_MEMORY_PHY_ADDRESS_VALID_def
         EFI_PLATFORM_MEMORY_BANK_VALID_def EFI_PLATFORM_MEMORY_COLUMN_VALID_def
         EFI_PLATFORM_MEMORY_ERROR_RANK_NUM_VALID_def
         EFI_PLATFORM_MEMORY_ERROR_EXTENDED_ROW_BIT_16_17_VALID_def)
  have v2: "ValidFields ?p AND EFI_PLATFORM_MEMORY_PHY_ADDRESS_MASK_VALID = 0"
    using assms
    by (simp add: MemorySectionInfo_ValidFields)
       (simp add: BIT_def EFI_PLATFORM_MEMORY_PHY_ADDRESS_MASK_VALID_def
         EFI_PLATFORM_MEMORY_BANK_VALID_def EFI_PLATFORM_MEMORY_COLUMN_VALID_def
         EFI_PLATFORM_MEMORY_ERROR_RANK_NUM_VALID_def
         EFI_PLATFORM_MEMORY_ERROR_EXTENDED_ROW_BIT_16_17_VALID_def)
  have a: "PhysicalAddress ?p = 0" "PhysicalAddressMask ?p = 0"
    using assms
    by (simp_all add: MemorySectionInfo_PhysicalAddress MemorySectionInfo_PhysicalAddressMask)
  show ?thesis
    using v1 v2 a by (simp add: HandleDramError_Mem_payload HandleDramError_Mem_header)
qed

theorem address_not_valid_leaves_fields_clear_witness:
  "(ucast (Regs (sample_machine 2 0x04000000)
      (Reg_ErrStatus (FaultRecord 0x4E100000 DMC620_ERR_GSR_ECC_CORRECTED_FH))) :: UINTN) AND
     DMC620_ERR_STATUS_AV = 0 \<and>
   (\<exists>p. Mem (Dmc620HandleDramError clear_on_write (sample_machine 2 0x04000000) 0x4E100000 1
               DMC620_ERR_GSR_ECC_CORRECTED_FH 0xFF610100)
            (Block_MemoryPayload 0xFF610100) = MemoryErrorObject p \<and>
        ValidFields p AND EFI_PLATFORM_MEMORY_PHY_ADDRESS_VALID = 0 \<and>
        ValidFields p AND EFI_PLATFORM_MEMORY_PHY_ADDRESS_MASK_VALID = 0 \<and>
        PhysicalAddress p = 0 \<and>
        PhysicalAddressMask p = 0)"
proof -
  have av: "(ucast (Regs (sample_machine 2 0x04000000)
      (Reg_ErrStatus (FaultRecord 0x4E100000 DMC620_ERR_GSR_ECC_CORRECTED_FH))) :: UINTN) AND
     DMC620_ERR_STATUS_AV = 0"
    by (simp add: sample_machine_def FaultRecord_def reg_defs flag_defs)
  show ?thesis
    using av address_not_valid_leaves_fields_clear [OF av, of clear_on_write 1 "0xFF610100"]
    by blast
qed

subsection \<open>The row field\<close>

lemma RowField_less: "unat (RowField ErrMisc0) < 2 ^ 18"
proof -
  have "ErrMisc0 AND DMC620_ERR_MISC0_ROW_MASK \<le> DMC620_ERR_MISC0_ROW_MASK"
    by (rule word_and_le1)
  then have "unat (ErrMisc0 AND DMC620_ERR_MISC0_ROW_MASK) \<le> unat DMC620_ERR_MISC0_ROW_MASK"
    by (simp add: word_le_nat_alt)
  then have "unat (ErrMisc0 AND DMC620_ERR_MISC0_ROW_MASK) < 2 ^ 28"
    by (simp add: DMC620_ERR_MISC0_ROW_MASK_def)
  then have "unat (ErrMisc0 AND DMC620_ERR_MISC0_ROW_MASK) div 2 ^ 10 < 2 ^ 18"
    by (simp add: less_mult_imp_div_less)
  moreover have "unat (RowField ErrMisc0) =
      unat (ErrMisc0 AND DMC620_ERR_MISC0_ROW_MASK) div 2 ^ 10"
    by (simp only: RowField_def DMC620_ERR_MISC0_ROW_SHIFT_def unat_drop_bit_eq)
       (simp add: drop_bit_eq_div)
  ultimately show ?thesis
    by (simp only:)
qed

lemma Row_of_RowField: "unat (ucast (RowField ErrMisc0) :: UINT16) = unat (RowField ErrMisc0) mod 2 ^ 16"
  by (simp add: unsigned_ucast_eq take_bit_eq_mod)

lemma Extended_of_RowField:
  "unat (ucast (drop_bit 16 (RowField ErrMisc0)) :: UINT8) = unat (RowField ErrMisc0) div 2 ^ 16"
proof -
  have "unat (RowField ErrMisc0) div 2 ^ 16 < 2 ^ 2"
    using RowField_less [of ErrMisc0] by (simp add: less_mult_imp_div_less)
  then have "unat (RowField ErrMisc0) div 2 ^ 16 < 2 ^ 8"
    by simp
  then have "take_bit 8 (unat (RowField ErrMisc0) div 2 ^ 16) =
      unat (RowField ErrMisc0) div 2 ^ 16"
    by (rule take_bit_nat_eq_self)
  moreover have "unat (ucast (drop_bit 16 (RowField ErrMisc0)) :: UINT8) =
      take_bit 8 (unat (RowField ErrMisc0) div 2 ^ 16)"
    by (simp only: unsigned_ucast_eq unat_drop_bit_eq) (simp add: drop_bit_eq_div)
  ultimately show ?thesis
    by (simp only:)
qed

lemma drop_RowField:
  "drop_bit (DMC620_ERR_MISC0_ROW_SHIFT + 16) (ErrMisc0 AND DMC620_ERR_MISC0_ROW_MASK) =
     drop_bit 16 (RowField ErrMisc0)"
  by (simp add: RowField_def drop_bit_drop_bit add.commute)

text \<open>
  C2. When the misc-valid bit of the status register and the valid bit of misc 0 are
  set, the row field \<open>(ErrMisc0 & rowMask) >> rowShift\<close> is split: \<open>Row\<close> is its low 16
  bits (the field modulo \<open>2^16\<close>) and \<open>Extended\<close> the two bits above them (the field
  divided by \<open>2^16\<close>, which is below 4). For the field \<open>0x30001\<close> this gives \<open>Row = 1\<close>
  and \<open>Extended = 3\<close>.
\<close>

theorem row_field_split:
  assumes "(ucast (Regs s (Reg_ErrStatus (FaultRecord DmcCtrl ErrRecType))) :: UINTN) AND
             DMC620_ERR_STATUS_MV \<noteq> 0"
      and "(ucast (Regs s (Reg_ErrMisc0 (FaultRecord DmcCtrl ErrRecType))) :: UINTN) AND
             DMC620_ERR_MISC0_VAILD \<noteq> 0"
  shows "\<exists>p. Mem (Dmc620HandleDramError Dev s DmcCtrl DmcInstance ErrRecType Base)
               (Block_MemoryPayload Base) = MemoryErrorObject p \<and>
             unat (Row p) =
               unat (RowField (ucast (Regs s (Reg_ErrMisc0 (FaultRecord DmcCtrl ErrRecType)))))
                 mod 2 ^ 16 \<and>
             unat (Extended p) =
               unat (RowField (ucast (Regs s (Reg_ErrMisc0 (FaultRecord DmcCtrl ErrRecType)))))
                 div 2 ^ 16 \<and>
             unat (Extended p) < 2 ^ 2 \<and>
             (RowField (ucast (Regs s (Reg_ErrMisc0 (FaultRecord DmcCtrl ErrRecType)))) = 0x30001
              \<longrightarrow> Row p = 0x0001 \<and> Extended p = 0x3)"
proof -
  let ?m = "(ucast (Regs s (Reg_ErrMisc0 (FaultRecord DmcCtrl ErrRecType))) :: UINTN)"
  let ?p = "MemorySectionInfo
        (ucast (Regs s (Reg_ErrStatus (FaultRecord DmcCtrl ErrRecType))))
        (ucast (Regs s (Reg_ErrAddr0 (FaultRecord DmcCtrl ErrRecType))))
        (ucast (Regs s (Reg_ErrAddr1 (FaultRecord DmcCtrl ErrRecType))))
        ?m
        (ucast (Regs s (Reg_ErrMisc1 (FaultRecord DmcCtrl ErrRecType))))"
  have row: "Row ?p = ucast (RowField ?m)"
    using assms by (simp add: MemorySectionInfo_Row RowField_def)
  have ext: "Extended ?p = ucast (drop_bit 16 (RowField ?m))"
    using assms by (simp only: MemorySectionInfo_Extended drop_RowField) simp
  have small: "unat (RowField ?m) div 2 ^ 16 < 2 ^ 2"
    using RowField_less [of ?m] by (simp add: less_mult_imp_div_less)
  have special: "RowField ?m = 0x30001 \<Longrightarrow> Row ?p = 0x0001 \<and> Extended ?p = 0x3"
    by (simp add: row ext)
  show ?thesis
    using small special
    by (simp add: HandleDramError_Mem_payload row ext Row_of_RowField Extended_of_RowField)
qed

theorem row_field_split_witness:
  "(ucast (Regs (sample_machine 2 0x84000000)
      (Reg_ErrStatus (FaultRecord 0x4E100000 DMC620_ERR_GSR_ECC_CORRECTED_FH))) :: UINTN) AND
     DMC620_ERR_STATUS_MV \<noteq> 0 \<and>
   (ucast (Regs (sample_machine 2 0x84000000)
      (Reg_ErrMisc0 (FaultRecord 0x4E100000 DMC620_ERR_GSR_ECC_CORRECTED_FH))) :: UINTN) AND
     DMC620_ERR_MISC0_VAILD \<noteq> 0 \<and>
   RowField (ucast (Regs (sample_machine 2 0x84000000)
      (Reg_ErrMisc0 (FaultRecord 0x4E100000 DMC620_ERR_GSR_ECC_CORRECTED_FH)))) = 0x30001 \<and>
   (\<exists>p. Mem (Dmc620HandleDramError clear_on_write (sample_machine 2 0x84000000) 0x4E100000 1
               DMC620_ERR_GSR_ECC_CORRECTED_FH 0xFF610100)
            (Block_MemoryPayload 0xFF610100) = MemoryErrorObject p \<and>
        Row p = 0x0001 \<and> Extended p = 0x3)"
proof -
  have mv: "(ucast (Regs (sample_machine 2 0x84000000)
      (Reg_ErrStatus (FaultRecord 0x4E100000 DMC620_ERR_GSR_ECC_CORRECTED_FH))) :: UINTN) AND
     DMC620_ERR_STATUS_MV \<noteq> 0"
    by (simp add: sample_machine_def FaultRecord_def reg_defs flag_defs)
  have v0: "(ucast (Regs (sample_machine 2 0x84000000)
      (Reg_ErrMisc0 (FaultRecord 0x4E100000 DMC620_ERR_GSR_ECC_CORRECTED_FH))) :: UINTN) AND
     DMC620_ERR_MISC0_VAILD \<noteq> 0"
    by (simp add: sample_machine_def FaultRecord_def reg_defs flag_defs)
  have rf: "RowField (ucast (Regs (sample_machine 2 0x84000000)
      (Reg_ErrMisc0 (FaultRecord 0x4E100000 DMC620_ERR_GSR_ECC_CORRECTED_FH)))) = 0x30001"
    by (simp add: sample_machine_def FaultRecord_def reg_defs flag_defs RowField_def)
  show ?thesis
    using mv v0 rf row_field_split [OF mv v0, of clear_on_write 1 "0xFF610100"]
    by auto
qed

subsection \<open>Re-arming the fault record\<close>

text \<open>
  C7. The register accesses of a decode, in order: the five reads of the record
  (status, the two address words, misc 0 and misc 1); a read of the status register and
  the write of that value back to it; writes of zero to misc 2, 3, 4 and 5 if the
  misc-valid bit of the status read first is set, and no write at all otherwise; a
  second read of the status register and the write of that value back to it.
\<close>

theorem status_cleared_twice_misc_cleared_if_valid:
  "\<exists>v. MmioLog (Dmc620HandleDramError Dev s DmcCtrl DmcInstance ErrRecType Base) =
     MmioLog s @
     [MmioRead (Reg_ErrStatus (FaultRecord DmcCtrl ErrRecType))
        (Regs s (Reg_ErrStatus (FaultRecord DmcCtrl ErrRecType))),
      MmioRead (Reg_ErrAddr0 (FaultRecord DmcCtrl ErrRecType))
        (Regs s (Reg_ErrAddr0 (FaultRecord DmcCtrl ErrRecType))),
      MmioRead (Reg_ErrAddr1 (FaultRecord DmcCtrl ErrRecType))
        (Regs s (Reg_ErrAddr1 (FaultRecord DmcCtrl ErrRecType))),
      MmioRead (Reg_ErrMisc0 (FaultRecord DmcCtrl ErrRecType))
        (Regs s (Reg_ErrMisc0 (FaultRecord DmcCtrl ErrRecType))),
      MmioRead (Reg_ErrMisc1 (FaultRecord DmcCtrl ErrRecType))
        (Regs s (Reg_ErrMisc1 (FaultRecord DmcCtrl ErrRecType))),
      MmioRead (Reg_ErrStatus (FaultRecord DmcCtrl ErrRecType))
        (Regs s (Reg_ErrStatus (FaultRecord DmcCtrl ErrRecType))),
      MmioWrite (Reg_ErrStatus (FaultRecord DmcCtrl ErrRecType))
        (Regs s (Reg_ErrStatus (FaultRecord DmcCtrl ErrRecType)))] @
     (if ucast (Regs s (Reg_ErrStatus (FaultRecord DmcCtrl ErrRecType))) AND
           DMC620_ERR_STATUS_MV \<noteq> 0
      then [MmioWrite (Reg_ErrMisc2 (FaultRecord DmcCtrl ErrRecType)) 0,
            MmioWrite (Reg_ErrMisc3 (FaultRecord DmcCtrl ErrRecType)) 0,
            MmioWrite (Reg_ErrMisc4 (FaultRecord DmcCtrl ErrRecType)) 0,
            MmioWrite (Reg_ErrMisc5 (FaultRecord DmcCtrl ErrRecType)) 0]
      else []) @
     [MmioRead (Reg_ErrStatus (FaultRecord DmcCtrl ErrRecType)) v,
      MmioWrite (Reg_ErrStatus (FaultRecord DmcCtrl ErrRecType)) v]"
proof (cases "ErrRecType = DMC620_ERR_GSR_ECC_CORRECTED_FH")
  case True
  then show ?thesis
    by (simp add: Dmc620HandleDramError_def MmioRead32_def MmioWrite32_def Let_def
        FaultRecord_def)
next
  case False
  then show ?thesis
    by (simp add: Dmc620HandleDramError_def MmioRead32_def MmioWrite32_def Let_def
        FaultRecord_def)
qed

theorem status_cleared_twice_misc_cleared_if_valid_witness:
  "\<exists>v. MmioLog (Dmc620HandleDramError clear_on_write (sample_machine 2 0x84000000) 0x4E100000 1
      DMC620_ERR_GSR_ECC_CORRECTED_FH 0xFF610100) =
     [MmioRead 0x4E100750 0x84000000, MmioRead 0x4E100758 1, MmioRead 0x4E10075C 2,
      MmioRead 0x4E100760 0x9C000405, MmioRead 0x4E100764 0x80000003,
      MmioRead 0x4E100750 0x84000000, MmioWrite 0x4E100750 0x84000000,
      MmioWrite 0x4E100768 0, MmioWrite 0x4E10076C 0, MmioWrite 0x4E100770 0,
      MmioWrite 0x4E100774 0,
      MmioRead 0x4E100750 v, MmioWrite 0x4E100750 v]"
  using status_cleared_twice_misc_cleared_if_valid
    [of clear_on_write "sample_machine 2 0x84000000" "0x4E100000" 1
        DMC620_ERR_GSR_ECC_CORRECTED_FH "0xFF610100"]
  by (simp add: sample_machine_def FaultRecord_def reg_defs flag_defs)

section \<open>The event dispatcher\<close>

text \<open>
  C9. When the global status register read by the handler does not have the
  corrected-fault bit set, the handler leaves the whole of memory, and with it the
  error status block of the controller, as it was; it writes no register, and its only
  register access is the read of the global status register, so no fault record is
  decoded and no error record built.
\<close>

theorem unrecognised_status_leaves_block_unchanged:
  assumes "(ucast (Regs s (Errgsr (PcdDmc620RegisterBase P + PcdDmc620CtrlSize P * CommBuffer)))
              :: UINTN) AND DMC620_ERR_GSR_ECC_CORRECTED_FH = 0"
  shows "Mem (snd (snd (Dmc620ErrorEventHandler Dev P s CommBuffer))) = Mem s \<and>
         Regs (snd (snd (Dmc620ErrorEventHandler Dev P s CommBuffer))) = Regs s \<and>
         MmioLog (snd (snd (Dmc620ErrorEventHandler Dev P s CommBuffer))) =
           MmioLog s @
           [MmioRead (Errgsr (PcdDmc620RegisterBase P + PcdDmc620CtrlSize P * CommBuffer))
              (Regs s (Errgsr (PcdDmc620RegisterBase P + PcdDmc620CtrlSize P * CommBuffer)))]"
  using assms
  by (simp add: Dmc620ErrorEventHandler_def MmioRead32_def Let_def)

theorem unrecognised_status_leaves_block_unchanged_witness:
  "(ucast (Regs (sample_machine 0x1 0x84000000)
      (Errgsr (PcdDmc620RegisterBase (sample_PCD 1) + PcdDmc620CtrlSize (sample_PCD 1) * 1)))
      :: UINTN) AND DMC620_ERR_GSR_ECC_CORRECTED_FH = 0 \<and>
   Mem (snd (snd (Dmc620ErrorEventHandler clear_on_write (sample_PCD 1)
          (sample_machine 0x1 0x84000000) 1))) = Mem (sample_machine 0x1 0x84000000) \<and>
   Regs (snd (snd (Dmc620ErrorEventHandler clear_on_write (sample_PCD 1)
          (sample_machine 0x1 0x84000000) 1))) = Regs (sample_machine 0x1 0x84000000) \<and>
   MmioLog (snd (snd (Dmc620ErrorEventHandler clear_on_write (sample_PCD 1)
          (sample_machine 0x1 0x84000000) 1))) = [MmioRead 0x4E100920 0x1]"
proof -
  have gsr: "(ucast (Regs (sample_machine 0x1 0x84000000)
      (Errgsr (PcdDmc620RegisterBase (sample_PCD 1) + PcdDmc620CtrlSize (sample_PCD 1) * 1)))
      :: UINTN) AND DMC620_ERR_GSR_ECC_CORRECTED_FH = 0"
    by (simp add: sample_machine_def sample_PCD_def reg_defs flag_defs)
  show ?thesis
    using gsr unrecognised_status_leaves_block_unchanged [OF gsr, of clear_on_write]
    by (simp add: sample_machine_def sample_PCD_def reg_defs)
qed

text \<open>
  C10. Every call of the event handler returns \<open>EFI_SUCCESS\<close>, which is not an error
  status, and leaves 0 in the communication buffer size, whether the corrected-fault
  bit is set or not.
\<close>

theorem handler_always_succeeds:
  "fst (Dmc620ErrorEventHandler Dev P s CommBuffer) = EFI_SUCCESS \<and>
   \<not> EFI_ERROR (fst (Dmc620ErrorEventHandler Dev P s CommBuffer)) \<and>
   fst (snd (Dmc620ErrorEventHandler Dev P s CommBuffer)) = 0"
  by (simp add: Dmc620ErrorEventHandler_def MmioRead32_def Let_def EFI_SUCCESS_def EFI_ERROR_def)

section \<open>The descriptor generator\<close>

lemma unat_inc: "(i :: UINTN) < N \<Longrightarrow> unat (i + 1) = Suc (unat i)"
proof -
  assume less: "i < N"
  then have below: "unat i < unat N"
    by (simp add: word_less_nat_alt)
  have "unat N < 2 ^ 64"
    using unsigned_less [of N, where ?'a = nat] by simp
  with below have "unat i + unat (1 :: UINTN) < 2 ^ LENGTH(64)"
    by simp
  then have "unat (i + 1) = unat i + unat (1 :: UINTN)"
    by (simp only: unat_add_lem)
  then show ?thesis
    by simp
qed

lemma Setup_fst:
  "fst (Dmc620SetupDramErrorDescriptor P st ErrorDesc DmcIdx) =
     (fst st)(ErrorDesc \<mapsto> DramErrorDescriptor P DmcIdx)"
  by (simp add: Dmc620SetupDramErrorDescriptor_def Let_def split_def)

lemma loop_buffer:
  "fst (Dmc620ErrorSourceDescInfoGet_loop P DmcIdx ErrorDescriptor st) k =
     (if ErrorDescriptor \<le> k \<and> k - ErrorDescriptor < unat (PcdDmc620NumCtrl P) - unat DmcIdx
      then Some (DramErrorDescriptor P (DmcIdx + of_nat (k - ErrorDescriptor)))
      else fst st k)"
proof (induction P DmcIdx ErrorDescriptor st rule: Dmc620ErrorSourceDescInfoGet_loop.induct)
  case (1 P DmcIdx ErrorDescriptor st)
  let ?N = "unat (PcdDmc620NumCtrl P)"
  show ?case
  proof (cases "DmcIdx < PcdDmc620NumCtrl P")
    case True
    have suc: "unat (DmcIdx + 1) = Suc (unat DmcIdx)"
      using True by (rule unat_inc)
    have below: "unat DmcIdx < ?N"
      using True by (simp add: word_less_nat_alt)
    have unfold: "Dmc620ErrorSourceDescInfoGet_loop P DmcIdx ErrorDescriptor st =
        Dmc620ErrorSourceDescInfoGet_loop P (DmcIdx + 1) (ErrorDescriptor + 1)
          (Dmc620SetupDramErrorDescriptor P st ErrorDescriptor DmcIdx)"
      using True by (subst Dmc620ErrorSourceDescInfoGet_loop.simps) (simp only: if_True)
    have IH: "fst (Dmc620ErrorSourceDescInfoGet_loop P DmcIdx ErrorDescriptor st) k =
        (if ErrorDescriptor + 1 \<le> k \<and> k - (ErrorDescriptor + 1) < ?N - Suc (unat DmcIdx)
         then Some (DramErrorDescriptor P (DmcIdx + 1 + of_nat (k - (ErrorDescriptor + 1))))
         else ((fst st)(ErrorDescriptor \<mapsto> DramErrorDescriptor P DmcIdx)) k)"
      using 1 [OF True] by (simp only: unfold suc Setup_fst)
    consider (eq) "k = ErrorDescriptor" | (gt) "ErrorDescriptor < k" | (lt) "k < ErrorDescriptor"
      by arith
    then show ?thesis
    proof cases
      case eq
      then show ?thesis
        using below IH by simp
    next
      case gt
      then obtain j where k: "k = Suc (ErrorDescriptor + j)"
        by (metis less_iff_Suc_add add_Suc_right)
      have idx: "DmcIdx + 1 + of_nat j = DmcIdx + of_nat (Suc j)"
        by simp
      have cond: "j < ?N - Suc (unat DmcIdx) \<longleftrightarrow> Suc j < ?N - unat DmcIdx"
        by arith
      show ?thesis
        using IH by (simp add: k idx cond del: of_nat_Suc)
    next
      case lt
      then show ?thesis
        using IH by simp
    qed
  next
    case False
    then have "?N - unat DmcIdx = 0"
      by (simp add: word_less_nat_alt)
    moreover have "Dmc620ErrorSourceDescInfoGet_loop P DmcIdx ErrorDescriptor st = st"
      using False by (subst Dmc620ErrorSourceDescInfoGet_loop.simps) (simp only: if_False)
    ultimately show ?thesis
      by simp
  qed
qed

lemma take_bit_sum_low:
  "m \<le> n \<Longrightarrow> take_bit m (take_bit n a + take_bit n b) = take_bit m (a + b)" for a b :: int
proof -
  assume le: "m \<le> n"
  have "take_bit m (take_bit n a + take_bit n b) =
      take_bit m (take_bit m (take_bit n a) + take_bit m (take_bit n b))"
    by (simp only: take_bit_add)
  also have "\<dots> = take_bit m (take_bit m a + take_bit m b)"
    using le by (simp add: min_def)
  also have "\<dots> = take_bit m (a + b)"
    by (simp only: take_bit_add)
  finally show ?thesis .
qed

lemma ucast_sum_32: "(ucast (a + b :: UINT64) :: UINT32) = ucast a + ucast b"
  by transfer (simp add: take_bit_add take_bit_sum_low)

lemma ucast_sum_16: "(ucast (a + b :: UINT64) :: UINT16) = ucast a + ucast b"
  by transfer (simp add: take_bit_add take_bit_sum_low)

lemma ucast_back_32: "(ucast (ucast (b :: UINT32) :: UINT64) :: UINT32) = b"
  by transfer simp

lemma ucast_back_16: "(ucast (ucast (b :: UINT16) :: UINT64) :: UINT16) = b"
  by transfer simp

lemma ucast_nat_32: "(ucast (of_nat k :: UINT64) :: UINT32) = of_nat k"
  by transfer simp

lemma ucast_nat_16: "(ucast (of_nat k :: UINT64) :: UINT16) = of_nat k"
  by transfer simp

lemma DescInfoGet_Some:
  "Dmc620ErrorSourceDescInfoGet P M (Some Buf) =
     \<lparr>Status = EFI_SUCCESS,
      ErrorSourcesLength = PcdDmc620NumCtrl P * PcdDmc620ErrSourceCount P *
        sizeof_GENERIC_HARDWARE_ERROR_SOURCE_VERSION_2_STRUCTURE,
      ErrorSourcesCount = PcdDmc620NumCtrl P * PcdDmc620ErrSourceCount P,
      Descriptors = Some (fst (Dmc620ErrorSourceDescInfoGet_loop P 0 0 (Buf, M))),
      Memory = snd (Dmc620ErrorSourceDescInfoGet_loop P 0 0 (Buf, M))\<rparr>"
  by (simp add: Dmc620ErrorSourceDescInfoGet_def Let_def split_def)

lemma DescInfoGet_None:
  "Dmc620ErrorSourceDescInfoGet P M None =
     \<lparr>Status = EFI_INVALID_PARAMETER,
      ErrorSourcesLength = PcdDmc620NumCtrl P * PcdDmc620ErrSourceCount P *
        sizeof_GENERIC_HARDWARE_ERROR_SOURCE_VERSION_2_STRUCTURE,
      ErrorSourcesCount = PcdDmc620NumCtrl P * PcdDmc620ErrSourceCount P,
      Descriptors = None,
      Memory = M\<rparr>"
  by (simp add: Dmc620ErrorSourceDescInfoGet_def Let_def)

lemma DramErrorDescriptor_fields:
  "Address (ReadAckRegister (DramErrorDescriptor P DmcIdx)) =
     Block_ReadAck (OneBitErrorBlock P DmcIdx)"
  "Address (ErrorStatusAddress (DramErrorDescriptor P DmcIdx)) =
     Block_StatusPointer (OneBitErrorBlock P DmcIdx)"
  "SourceId (DramErrorDescriptor P DmcIdx) =
     PcdDmc620DramOneBitErrorSourceId P + ucast DmcIdx"
  "Vector (NotificationStructure (DramErrorDescriptor P DmcIdx)) =
     PcdDmc620DramErrorSdeiEventBase P + ucast DmcIdx"
  by (simp_all add: DramErrorDescriptor_def Let_def OneBitErrorBlock_def block_defs
      sizeof_UINTN_def EFI_ACPI_6_3_GENERIC_ERROR_STATUS_STRUCTURE_INIT_def
      EFI_ACPI_6_3_HARDWARE_ERROR_NOTIFICATION_STRUCTURE_INIT_def
      ucast_sum_32 ucast_sum_16 ucast_back_32 ucast_back_16)

lemma unat_base_plus:
  "unat (b :: UINT32) + k < 2 ^ 32 \<Longrightarrow> unat (b + of_nat k) = unat b + k"
proof -
  assume less: "unat b + k < 2 ^ 32"
  then have k: "unat (of_nat k :: UINT32) = k"
    by (simp add: unat_of_nat)
  with less have "unat b + unat (of_nat k :: UINT32) < 2 ^ LENGTH(32)"
    by simp
  then have "unat (b + of_nat k) = unat b + unat (of_nat k :: UINT32)"
    by (simp only: unat_add_lem)
  with k show ?thesis
    by simp
qed

text \<open>
  What the loop writes. Called with a buffer, the generator writes one descriptor for
  each controller, into the slots \<open>0\<close> to \<open>PcdDmc620NumCtrl - 1\<close> of the buffer, and
  leaves every slot from there on as it was. Slot \<open>k\<close> holds the descriptor of controller
  \<open>k\<close>: its acknowledgment register and status address are those of the error status
  block of controller \<open>k\<close>, its source id is the base source id plus \<open>k\<close> and its
  notification event id is the base event id plus \<open>k\<close>, as the 32-bit member holds it
  (the plain sum when that fits). When \<open>PcdDmc620ErrSourceCount\<close> is 1 the number of
  descriptors written is the count reported.
\<close>

theorem one_descriptor_per_controller:
  "\<exists>B. Descriptors (Dmc620ErrorSourceDescInfoGet P M (Some Buf)) = Some B \<and>
     (\<forall>k. k < unat (PcdDmc620NumCtrl P) \<longrightarrow>
        (\<exists>d. B k = Some d \<and>
           d = DramErrorDescriptor P (of_nat k) \<and>
           Address (ReadAckRegister d) = Block_ReadAck (OneBitErrorBlock P (of_nat k)) \<and>
           Address (ErrorStatusAddress d) = Block_StatusPointer (OneBitErrorBlock P (of_nat k)) \<and>
           SourceId d = PcdDmc620DramOneBitErrorSourceId P + of_nat k \<and>
           Vector (NotificationStructure d) = PcdDmc620DramErrorSdeiEventBase P + of_nat k \<and>
           (unat (PcdDmc620DramErrorSdeiEventBase P) + k < 2 ^ 32 \<longrightarrow>
              unat (Vector (NotificationStructure d)) =
                unat (PcdDmc620DramErrorSdeiEventBase P) + k))) \<and>
     (\<forall>k. unat (PcdDmc620NumCtrl P) \<le> k \<longrightarrow> B k = Buf k) \<and>
     (PcdDmc620ErrSourceCount P = 1 \<longrightarrow>
        unat (ErrorSourcesCount (Dmc620ErrorSourceDescInfoGet P M (Some Buf))) =
          unat (PcdDmc620NumCtrl P))"
  by (simp add: DescInfoGet_Some loop_buffer DramErrorDescriptor_fields
      ucast_nat_32 ucast_nat_16 unat_base_plus)

theorem one_descriptor_per_controller_witness:
  "1 < unat (PcdDmc620NumCtrl (sample_PCD 1)) \<and>
   unat (PcdDmc620NumCtrl (sample_PCD 1)) \<le> 2 \<and>
   PcdDmc620ErrSourceCount (sample_PCD 1) = 1 \<and>
   unat (PcdDmc620DramErrorSdeiEventBase (sample_PCD 1)) + 1 < 2 ^ 32 \<and>
   (\<exists>B. Descriptors (Dmc620ErrorSourceDescInfoGet (sample_PCD 1) (Mem (sample_machine 0 0))
           (Some empty_buffer)) = Some B \<and>
      (\<exists>d. B 0 = Some d \<and>
         Address (ReadAckRegister d) = 0xFF610000 \<and>
         Address (ErrorStatusAddress d) = 0xFF610008 \<and>
         Vector (NotificationStructure d) = 804) \<and>
      (\<exists>d. B 1 = Some d \<and>
         Address (ReadAckRegister d) = 0xFF610100 \<and>
         Address (ErrorStatusAddress d) = 0xFF610108 \<and>
         Vector (NotificationStructure d) = 805 \<and>
         unat (Vector (NotificationStructure d)) = 805) \<and>
      B 2 = None) \<and>
   unat (ErrorSourcesCount (Dmc620ErrorSourceDescInfoGet (sample_PCD 1)
     (Mem (sample_machine 0 0)) (Some empty_buffer))) = 2"
proof -
  let ?r = "Dmc620ErrorSourceDescInfoGet (sample_PCD 1) (Mem (sample_machine 0 0))
      (Some empty_buffer)"
  have n: "unat (PcdDmc620NumCtrl (sample_PCD 1)) = 2"
    by (simp add: sample_PCD_def)
  have c: "PcdDmc620ErrSourceCount (sample_PCD 1) = 1"
    by (simp add: sample_PCD_def)
  have e: "unat (PcdDmc620DramErrorSdeiEventBase (sample_PCD 1)) + 1 < 2 ^ 32"
    by (simp add: sample_PCD_def)
  from one_descriptor_per_controller [of "sample_PCD 1" "Mem (sample_machine 0 0)" empty_buffer]
  obtain B where B: "Descriptors ?r = Some B"
    and slots: "\<And>k. k < unat (PcdDmc620NumCtrl (sample_PCD 1)) \<Longrightarrow>
        \<exists>d. B k = Some d \<and>
           d = DramErrorDescriptor (sample_PCD 1) (of_nat k) \<and>
           Address (ReadAckRegister d) = Block_ReadAck (OneBitErrorBlock (sample_PCD 1) (of_nat k)) \<and>
           Address (ErrorStatusAddress d) =
             Block_StatusPointer (OneBitErrorBlock (sample_PCD 1) (of_nat k)) \<and>
           SourceId d = PcdDmc620DramOneBitErrorSourceId (sample_PCD 1) + of_nat k \<and>
           Vector (NotificationStructure d) =
             PcdDmc620DramErrorSdeiEventBase (sample_PCD 1) + of_nat k \<and>
           (unat (PcdDmc620DramErrorSdeiEventBase (sample_PCD 1)) + k < 2 ^ 32 \<longrightarrow>
              unat (Vector (NotificationStructure d)) =
                unat (PcdDmc620DramErrorSdeiEventBase (sample_PCD 1)) + k)"
    and rest: "\<And>k. unat (PcdDmc620NumCtrl (sample_PCD 1)) \<le> k \<Longrightarrow> B k = empty_buffer k"
    and count: "PcdDmc620ErrSourceCount (sample_PCD 1) = 1 \<Longrightarrow>
        unat (ErrorSourcesCount ?r) = unat (PcdDmc620NumCtrl (sample_PCD 1))"
    by blast
  have s0: "\<exists>d. B 0 = Some d \<and>
         Address (ReadAckRegister d) = 0xFF610000 \<and>
         Address (ErrorStatusAddress d) = 0xFF610008 \<and>
         Vector (NotificationStructure d) = 804"
    using slots [of 0] n
    by (simp add: sample_PCD_def OneBitErrorBlock_def block_defs sizeof_UINTN_def)
  have s1: "\<exists>d. B 1 = Some d \<and>
         Address (ReadAckRegister d) = 0xFF610100 \<and>
         Address (ErrorStatusAddress d) = 0xFF610108 \<and>
         Vector (NotificationStructure d) = 805 \<and>
         unat (Vector (NotificationStructure d)) = 805"
    using slots [of 1] n
    by (simp add: sample_PCD_def OneBitErrorBlock_def block_defs sizeof_UINTN_def)
  have s2: "B 2 = None"
    using rest [of 2] n by (simp add: empty_buffer_def)
  show ?thesis
    using n c e B s0 s1 s2 count [OF c] by simp
qed

text \<open>
  C3. The claim: called with a buffer, the generator writes exactly the reported count
  of contiguous descriptors, in ascending order of the controllers, the notification
  event id of descriptor \<open>k\<close> being the base event id plus \<open>k\<close>.

  The code does not keep to the count it reports. The count is the number of
  controllers times \<open>PcdDmc620ErrSourceCount\<close>, as is the length, while the loop runs over
  the controllers alone and writes one descriptor for each. The function's own comment
  promises the descriptors of all supported error sources. On the sample platform of
  two controllers with \<open>PcdDmc620ErrSourceCount = 2\<close> the call succeeds and reports 4
  descriptors and 368 bytes, yet only slots 0 and 1 are written: slots 2 and 3 are as
  the caller left them.
\<close>

theorem reported_count_exceeds_descriptors_written:
  "Status (Dmc620ErrorSourceDescInfoGet (sample_PCD 2) (Mem (sample_machine 0 0))
      (Some empty_buffer)) = EFI_SUCCESS \<and>
   ErrorSourcesCount (Dmc620ErrorSourceDescInfoGet (sample_PCD 2) (Mem (sample_machine 0 0))
      (Some empty_buffer)) = 4 \<and>
   ErrorSourcesLength (Dmc620ErrorSourceDescInfoGet (sample_PCD 2) (Mem (sample_machine 0 0))
      (Some empty_buffer)) = 368 \<and>
   the (Descriptors (Dmc620ErrorSourceDescInfoGet (sample_PCD 2) (Mem (sample_machine 0 0))
      (Some empty_buffer))) 0 \<noteq> None \<and>
   the (Descriptors (Dmc620ErrorSourceDescInfoGet (sample_PCD 2) (Mem (sample_machine 0 0))
      (Some empty_buffer))) 1 \<noteq> None \<and>
   the (Descriptors (Dmc620ErrorSourceDescInfoGet (sample_PCD 2) (Mem (sample_machine 0 0))
      (Some empty_buffer))) 2 = None \<and>
   the (Descriptors (Dmc620ErrorSourceDescInfoGet (sample_PCD 2) (Mem (sample_machine 0 0))
      (Some empty_buffer))) 3 = None"
  by (simp add: DescInfoGet_Some loop_buffer sample_PCD_def empty_buffer_def
      sizeof_GENERIC_HARDWARE_ERROR_SOURCE_VERSION_2_STRUCTURE_def)

text \<open>
  C4. A call with a null buffer returns \<open>EFI_INVALID_PARAMETER\<close>, an error status, and
  still reports the count and the total length; it writes no descriptor and leaves the
  memory as it was. A call with a buffer after it succeeds and reports the same count
  and the same total length. The total length is the count times the size of a
  descriptor, in the arithmetic of \<open>UINTN\<close>.
\<close>

theorem sizing_query_reports_count_and_length:
  "Status (Dmc620ErrorSourceDescInfoGet P M None) = EFI_INVALID_PARAMETER \<and>
   EFI_ERROR (Status (Dmc620ErrorSourceDescInfoGet P M None)) \<and>
   Status (Dmc620ErrorSourceDescInfoGet P M None) \<noteq> EFI_SUCCESS \<and>
   ErrorSourcesCount (Dmc620ErrorSourceDescInfoGet P M None) =
     PcdDmc620NumCtrl P * PcdDmc620ErrSourceCount P \<and>
   ErrorSourcesLength (Dmc620ErrorSourceDescInfoGet P M None) =
     ErrorSourcesCount (Dmc620ErrorSourceDescInfoGet P M None) *
     sizeof_GENERIC_HARDWARE_ERROR_SOURCE_VERSION_2_STRUCTURE \<and>
   Descriptors (Dmc620ErrorSourceDescInfoGet P M None) = None \<and>
   Memory (Dmc620ErrorSourceDescInfoGet P M None) = M \<and>
   Status (Dmc620ErrorSourceDescInfoGet P (Memory (Dmc620ErrorSourceDescInfoGet P M None))
     (Some Buf)) = EFI_SUCCESS \<and>
   ErrorSourcesCount (Dmc620ErrorSourceDescInfoGet P
     (Memory (Dmc620ErrorSourceDescInfoGet P M None)) (Some Buf)) =
     ErrorSourcesCount (Dmc620ErrorSourceDescInfoGet P M None) \<and>
   ErrorSourcesLength (Dmc620ErrorSourceDescInfoGet P
     (Memory (Dmc620ErrorSourceDescInfoGet P M None)) (Some Buf)) =
     ErrorSourcesLength (Dmc620ErrorSourceDescInfoGet P M None)"
  by (simp add: DescInfoGet_Some DescInfoGet_None EFI_INVALID_PARAMETER_def EFI_SUCCESS_def
      EFI_ERROR_def)

end
